theory Spec2Isabelle
  imports Complex_Main
begin

section \<open>JSON values and documents\<close>

text \<open>
  The service in \<^verbatim>\<open>main.py\<close> keeps no data of its own: products, cart lines and orders
  are JSON documents of three Cosmos DB containers, read and written as Python dicts.
  A document is an association list in key order, as a Python dict is; prices are
  floats that the code only copies.
\<close>

datatype jval =
    JNull
  | JBool bool
  | JInt int
  | JFloat real
  | JStr string
  | JList "jval list"
  | JObj "(string \<times> jval) list"

type_synonym doc = "(string \<times> jval) list"

text \<open>
  The exceptions the handlers can meet: the Cosmos SDK's
  \<^verbatim>\<open>CosmosHttpResponseError\<close> (status code and message; the resource-exists and
  resource-not-found errors are subclasses of it), Python's \<^verbatim>\<open>KeyError\<close> on a dict
  without the key, and any other \<^verbatim>\<open>Exception\<close> (a connection failure of the
  transport, for instance).
\<close>

datatype exn =
    CosmosHttpResponseError nat string
  | KeyError string
  | OtherException string

text \<open>\<^verbatim>\<open>str(e)\<close>: the message; for a \<^verbatim>\<open>KeyError\<close> the quoted key.\<close>

fun str_exn :: "exn \<Rightarrow> string" where
  "str_exn (CosmosHttpResponseError code msg) = msg"
| "str_exn (KeyError k) = CHR 0x27 # k @ [CHR 0x27]"
| "str_exn (OtherException msg) = msg"

text \<open>\<^verbatim>\<open>d[k]\<close> raises \<^verbatim>\<open>KeyError\<close> on a missing key; \<^verbatim>\<open>d.get(k, default)\<close> does not.\<close>

definition getitem :: "doc \<Rightarrow> string \<Rightarrow> exn + jval" where
  "getitem d k = (case map_of d k of None \<Rightarrow> Inl (KeyError k) | Some v \<Rightarrow> Inr v)"

definition get_default :: "doc \<Rightarrow> string \<Rightarrow> jval \<Rightarrow> jval" where
  "get_default d k dflt = (case map_of d k of None \<Rightarrow> dflt | Some v \<Rightarrow> v)"

text \<open>\<^verbatim>\<open>d[k] = v\<close>: an existing key keeps its place, a new key goes last.\<close>

fun setitem :: "doc \<Rightarrow> string \<Rightarrow> jval \<Rightarrow> doc" where
  "setitem [] k v = [(k, v)]"
| "setitem ((k', v') # d) k v =
     (if k' = k then (k, v) # d else (k', v') # setitem d k v)"

section \<open>The document store\<close>

text \<open>
  A container holds its documents in the order its queries return them. A document is
  identified by its \<^verbatim>\<open>id\<close> within its partition; the cart and order containers are
  partitioned by \<^verbatim>\<open>/user_id\<close>, which is what
  \<^verbatim>\<open>delete_item(item["id"], partition_key=DEFAULT_USER)\<close> on documents selected by
  \<^verbatim>\<open>c.user_id = DEFAULT_USER\<close> relies on. \<open>fault\<close> is the exception every call on the
  container raises while the store cannot serve it (\<open>None\<close>: the store answers).
\<close>

record container =
  docs :: "doc list"
  fault :: "exn option"

definition doc_id :: "doc \<Rightarrow> jval option" where
  "doc_id d = map_of d ''id''"

definition partition_key :: "doc \<Rightarrow> jval option" where
  "partition_key d = map_of d ''user_id''"

definition same_key :: "doc \<Rightarrow> doc \<Rightarrow> bool" where
  "same_key d d' \<longleftrightarrow> doc_id d = doc_id d' \<and> partition_key d = partition_key d'"

definition has_string_id :: "doc \<Rightarrow> bool" where
  "has_string_id d = (case doc_id d of Some (JStr i) \<Rightarrow> True | _ \<Rightarrow> False)"

text \<open>\<^verbatim>\<open>list(container.query_items(...))\<close> with the query's WHERE clause as a predicate.\<close>

definition query_items :: "(doc \<Rightarrow> bool) \<Rightarrow> container \<Rightarrow> exn + doc list" where
  "query_items wh c =
     (case fault c of Some e \<Rightarrow> Inl e | None \<Rightarrow> Inr (filter wh (docs c)))"

text \<open>\<^verbatim>\<open>create_item\<close>: a new document; an id already taken in the partition is a conflict (409).\<close>

definition create_item :: "doc \<Rightarrow> container \<Rightarrow> exn + container" where
  "create_item d c =
     (case fault c of
        Some e \<Rightarrow> Inl e
      | None \<Rightarrow>
          if \<not> has_string_id d then Inl (CosmosHttpResponseError 400 ''BadRequest'')
          else if list_ex (same_key d) (docs c) then Inl (CosmosHttpResponseError 409 ''Conflict'')
          else Inr (c\<lparr>docs := docs c @ [d]\<rparr>))"

text \<open>\<^verbatim>\<open>upsert_item\<close>: replaces the document of the same id and partition, or adds it.\<close>

definition upsert_item :: "doc \<Rightarrow> container \<Rightarrow> exn + container" where
  "upsert_item d c =
     (case fault c of
        Some e \<Rightarrow> Inl e
      | None \<Rightarrow>
          if \<not> has_string_id d then Inl (CosmosHttpResponseError 400 ''BadRequest'')
          else if list_ex (same_key d) (docs c)
          then Inr (c\<lparr>docs := map (\<lambda>d'. if same_key d d' then d else d') (docs c)\<rparr>)
          else Inr (c\<lparr>docs := docs c @ [d]\<rparr>))"

text \<open>\<^verbatim>\<open>delete_item(id, partition_key=pk)\<close>: not found (404) when no such document.\<close>

definition item_at :: "jval \<Rightarrow> string \<Rightarrow> doc \<Rightarrow> bool" where
  "item_at i pk d \<longleftrightarrow> doc_id d = Some i \<and> partition_key d = Some (JStr pk)"

definition delete_item :: "jval \<Rightarrow> string \<Rightarrow> container \<Rightarrow> exn + container" where
  "delete_item i pk c =
     (case fault c of
        Some e \<Rightarrow> Inl e
      | None \<Rightarrow>
          if list_ex (item_at i pk) (docs c)
          then Inr (c\<lparr>docs := filter (\<lambda>d. \<not> item_at i pk d) (docs c)\<rparr>)
          else Inl (CosmosHttpResponseError 404 ''NotFound''))"

text \<open>
  The module's globals \<^verbatim>\<open>products_container\<close>, \<^verbatim>\<open>cart_container\<close>,
  \<^verbatim>\<open>orders_container\<close>: \<open>None\<close> until \<^verbatim>\<open>init_cosmos\<close> has set them, which it does
  only when the endpoint and key are configured.
\<close>

record store =
  products_container :: "container option"
  cart_container :: "container option"
  orders_container :: "container option"

definition DEFAULT_USER :: string where
  "DEFAULT_USER = ''cafe_guest''"

section \<open>Responses\<close>

text \<open>
  A handler returns a JSON body (status 200) or raises: an \<^verbatim>\<open>HTTPException\<close> with its
  status code and detail, or an exception nothing catches, which the framework answers
  with status 500.
\<close>

datatype failure = HTTPException nat string | Unhandled exn

definition error_body :: "exn \<Rightarrow> jval" where
  "error_body e = JObj [(''error'', JStr (str_exn e))]"

definition db_not_available :: jval where
  "db_not_available = JObj [(''error'', JStr ''Database not available'')]"

section \<open>Cart service\<close>

record CartItem =
  product_id :: string
  quantity :: int

text \<open>The WHERE clauses of the cart and order queries.\<close>

definition by_user :: "string \<Rightarrow> doc \<Rightarrow> bool" where
  "by_user u c \<longleftrightarrow> map_of c ''user_id'' = Some (JStr u)"

definition by_user_product :: "string \<Rightarrow> string \<Rightarrow> doc \<Rightarrow> bool" where
  "by_user_product u p c \<longleftrightarrow>
     map_of c ''user_id'' = Some (JStr u) \<and> map_of c ''product_id'' = Some (JStr p)"

text \<open>
  \<^verbatim>\<open>add_to_cart\<close> (POST /api/v1/cart/items). \<open>uuid4\<close> is the string
  \<^verbatim>\<open>str(uuid.uuid4())\<close> would return in this call.
\<close>

definition add_to_cart :: "CartItem \<Rightarrow> jval \<Rightarrow> string \<Rightarrow> store \<Rightarrow> jval \<times> store" where
  "add_to_cart item current_user uuid4 st =
     (case cart_container st of
        None \<Rightarrow> (db_not_available, st)
      | Some cc \<Rightarrow>
          (case query_items (by_user_product DEFAULT_USER (product_id item)) cc of
             Inl e \<Rightarrow> (error_body e, st)
           | Inr existing \<Rightarrow>
               (case existing of
                  cart_item # _ \<Rightarrow>
                    (case upsert_item (setitem cart_item ''quantity'' (JInt (quantity item))) cc of
                       Inl e \<Rightarrow> (error_body e, st)
                     | Inr cc' \<Rightarrow>
                         (JObj [(''message'', JStr ''Saved successfully'')],
                          st\<lparr>cart_container := Some cc'\<rparr>))
                | [] \<Rightarrow>
                    (case create_item
                            [(''id'', JStr uuid4),
                             (''user_id'', JStr DEFAULT_USER),
                             (''product_id'', JStr (product_id item)),
                             (''quantity'', JInt (quantity item))] cc of
                       Inl e \<Rightarrow> (error_body e, st)
                     | Inr cc' \<Rightarrow>
                         (JObj [(''message'', JStr ''Saved successfully'')],
                          st\<lparr>cart_container := Some cc'\<rparr>)))))"

text \<open>
  The loop \<^verbatim>\<open>for item in items: cart_container.delete_item(item["id"], ...)\<close>: it stops
  at the first exception, and what it deleted before stays deleted.
\<close>

fun delete_each :: "doc list \<Rightarrow> container \<Rightarrow> exn option \<times> container" where
  "delete_each [] c = (None, c)"
| "delete_each (item # items) c =
     (case getitem item ''id'' of
        Inl e \<Rightarrow> (Some e, c)
      | Inr i \<Rightarrow>
          (case delete_item i DEFAULT_USER c of
             Inl e \<Rightarrow> (Some e, c)
           | Inr c' \<Rightarrow> delete_each items c'))"

text \<open>\<^verbatim>\<open>remove_from_cart\<close> (DELETE /api/v1/cart/items/{product_id}).\<close>

definition remove_from_cart :: "string \<Rightarrow> jval \<Rightarrow> store \<Rightarrow> jval \<times> store" where
  "remove_from_cart pid current_user st =
     (case cart_container st of
        None \<Rightarrow> (db_not_available, st)
      | Some cc \<Rightarrow>
          (case query_items (by_user_product DEFAULT_USER pid) cc of
             Inl e \<Rightarrow> (error_body e, st)
           | Inr items \<Rightarrow>
               (case delete_each items cc of
                  (Some e, cc') \<Rightarrow> (error_body e, st\<lparr>cart_container := Some cc'\<rparr>)
                | (None, cc') \<Rightarrow>
                    (JObj [(''message'', JStr ''Removed successfully'')],
                     st\<lparr>cart_container := Some cc'\<rparr>))))"


text \<open>
  The loop of \<^verbatim>\<open>get_cart\<close>: one product query per cart line; a line with no product is
  skipped (\<^verbatim>\<open>continue\<close>), the others are appended to \<^verbatim>\<open>enriched_cart\<close>. The dict
  literal reads \<^verbatim>\<open>product["id"]\<close>, \<^verbatim>\<open>product["name"]\<close>, \<^verbatim>\<open>product["price"]\<close>
  and \<^verbatim>\<open>item["quantity"]\<close> in this order; the image and the category have defaults.
\<close>

definition default_image :: string where
  "default_image = [CHR 0xE2, CHR 0x98, CHR 0x95]"

definition by_id :: "jval \<Rightarrow> doc \<Rightarrow> bool" where
  "by_id i c \<longleftrightarrow> map_of c ''id'' = Some i"

fun enrich_loop :: "container \<Rightarrow> doc list \<Rightarrow> jval list \<Rightarrow> exn + jval list" where
  "enrich_loop pc [] enriched_cart = Inr enriched_cart"
| "enrich_loop pc (item # items) enriched_cart =
     (case getitem item ''product_id'' of
        Inl e \<Rightarrow> Inl e
      | Inr pid \<Rightarrow>
          (case query_items (by_id pid) pc of
             Inl e \<Rightarrow> Inl e
           | Inr product_items \<Rightarrow>
               (case product_items of
                  [] \<Rightarrow> enrich_loop pc items enriched_cart
                | product # _ \<Rightarrow>
                    (case getitem product ''id'' of
                       Inl e \<Rightarrow> Inl e
                     | Inr p_id \<Rightarrow>
                    (case getitem product ''name'' of
                       Inl e \<Rightarrow> Inl e
                     | Inr p_name \<Rightarrow>
                    (case getitem product ''price'' of
                       Inl e \<Rightarrow> Inl e
                     | Inr p_price \<Rightarrow>
                    (case getitem item ''quantity'' of
                       Inl e \<Rightarrow> Inl e
                     | Inr qty \<Rightarrow>
                         enrich_loop pc items
                           (enriched_cart @
                            [JObj [(''id'', p_id),
                                   (''name'', p_name),
                                   (''price'', p_price),
                                   (''quantity'', qty),
                                   (''image'', get_default product ''image'' (JStr default_image)),
                                   (''category'', get_default product ''category'' (JStr ''Menu''))]]))))))))"

text \<open>\<^verbatim>\<open>get_cart\<close> (GET /api/v1/cart). The caller's identity is a parameter it never reads.\<close>

definition get_cart :: "jval \<Rightarrow> store \<Rightarrow> jval" where
  "get_cart current_user st =
     (case cart_container st of
        None \<Rightarrow> JList []
      | Some cc \<Rightarrow>
          (case products_container st of
             None \<Rightarrow> JList []
           | Some pc \<Rightarrow>
               (case query_items (by_user DEFAULT_USER) cc of
                  Inl e \<Rightarrow> error_body e
                | Inr items \<Rightarrow>
                    (case enrich_loop pc items [] of
                       Inl e \<Rightarrow> error_body e
                     | Inr enriched_cart \<Rightarrow> JList enriched_cart))))"

section \<open>Order workflow\<close>

text \<open>The comprehension that copies \<^verbatim>\<open>product_id\<close> and \<^verbatim>\<open>quantity\<close> of every cart line.\<close>

fun order_items :: "doc list \<Rightarrow> exn + jval list" where
  "order_items [] = Inr []"
| "order_items (i # cart_items) =
     (case getitem i ''product_id'' of
        Inl e \<Rightarrow> Inl e
      | Inr pid \<Rightarrow>
          (case getitem i ''quantity'' of
             Inl e \<Rightarrow> Inl e
           | Inr qty \<Rightarrow>
               (case order_items cart_items of
                  Inl e \<Rightarrow> Inl e
                | Inr rest \<Rightarrow> Inr (JObj [(''product_id'', pid), (''quantity'', qty)] # rest))))"

text \<open>
  \<^verbatim>\<open>create_order\<close> (POST /api/v1/orders). \<open>uuid4\<close> is the new order id and \<open>utcnow\<close>
  the text of \<^verbatim>\<open>datetime.utcnow().isoformat()\<close> in this call. The order is stored
  first and the cart lines are deleted after it, one by one.
\<close>

definition create_order :: "jval \<Rightarrow> string \<Rightarrow> string \<Rightarrow> store \<Rightarrow> jval \<times> store" where
  "create_order current_user uuid4 utcnow st =
     (case orders_container st of
        None \<Rightarrow> (db_not_available, st)
      | Some oc \<Rightarrow>
          (case cart_container st of
             None \<Rightarrow> (db_not_available, st)
           | Some cc \<Rightarrow>
               (case query_items (by_user DEFAULT_USER) cc of
                  Inl e \<Rightarrow> (error_body e, st)
                | Inr cart_items \<Rightarrow>
                    (case order_items cart_items of
                       Inl e \<Rightarrow> (error_body e, st)
                     | Inr items \<Rightarrow>
                         (let order = [(''id'', JStr uuid4),
                                       (''user_id'', JStr DEFAULT_USER),
                                       (''items'', JList items),
                                       (''status'', JStr ''confirmed''),
                                       (''created_at'', JStr utcnow)]
                          in case create_item order oc of
                               Inl e \<Rightarrow> (error_body e, st)
                             | Inr oc' \<Rightarrow>
                                 (case delete_each cart_items cc of
                                    (Some e, cc') \<Rightarrow>
                                      (error_body e,
                                       st\<lparr>cart_container := Some cc', orders_container := Some oc'\<rparr>)
                                  | (None, cc') \<Rightarrow>
                                      (JObj order,
                                       st\<lparr>cart_container := Some cc', orders_container := Some oc'\<rparr>)))))))"

text \<open>\<^verbatim>\<open>get_orders\<close> (GET /api/v1/orders).\<close>

definition get_orders :: "jval \<Rightarrow> store \<Rightarrow> jval" where
  "get_orders current_user st =
     (case orders_container st of
        None \<Rightarrow> JList []
      | Some oc \<Rightarrow>
          (case query_items (by_user DEFAULT_USER) oc of
             Inl e \<Rightarrow> JList []
           | Inr items \<Rightarrow> JList (map JObj items)))"

section \<open>Catalog service\<close>

text \<open>\<^verbatim>\<open>list_products\<close>: \<^verbatim>\<open>if category:\<close> is false for \<^verbatim>\<open>None\<close> and for the empty string.\<close>

definition by_category :: "string \<Rightarrow> doc \<Rightarrow> bool" where
  "by_category cat c \<longleftrightarrow> map_of c ''category'' = Some (JStr cat)"

definition list_products :: "string option \<Rightarrow> store \<Rightarrow> jval" where
  "list_products category st =
     (case products_container st of
        None \<Rightarrow> JList []
      | Some pc \<Rightarrow>
          (case (case category of
                   Some cat \<Rightarrow>
                     if cat \<noteq> [] then query_items (by_category cat) pc
                     else query_items (\<lambda>c. True) pc
                 | None \<Rightarrow> query_items (\<lambda>c. True) pc) of
             Inl e \<Rightarrow> JList []
           | Inr items \<Rightarrow> JList (map JObj items)))"

text \<open>\<^verbatim>\<open>CONTAINS(s, q)\<close> of the query language: \<open>q\<close> occurs in \<open>s\<close>; false on a non-string.\<close>

definition contains :: "string \<Rightarrow> string \<Rightarrow> bool" where
  "contains s q = list_ex (\<lambda>i. take (length q) (drop i s) = q) [0..<Suc (length s)]"

definition field_contains :: "doc \<Rightarrow> string \<Rightarrow> string \<Rightarrow> bool" where
  "field_contains c k q = (case map_of c k of Some (JStr s) \<Rightarrow> contains s q | _ \<Rightarrow> False)"

definition search_products :: "string \<Rightarrow> store \<Rightarrow> jval" where
  "search_products q st =
     (case products_container st of
        None \<Rightarrow> JList []
      | Some pc \<Rightarrow>
          (case query_items (\<lambda>c. field_contains c ''name'' q \<or> field_contains c ''category'' q) pc of
             Inl e \<Rightarrow> JList []
           | Inr items \<Rightarrow> JList (map JObj items)))"

text \<open>
  \<^verbatim>\<open>get_product\<close>: 503 without a container; only a \<^verbatim>\<open>CosmosHttpResponseError\<close> of the
  query is caught, and answered 404; the 404 raised inside the \<^verbatim>\<open>try\<close> is an
  \<^verbatim>\<open>HTTPException\<close> and passes through.
\<close>

definition get_product :: "string \<Rightarrow> store \<Rightarrow> failure + jval" where
  "get_product pid st =
     (case products_container st of
        None \<Rightarrow> Inl (HTTPException 503 ''Database not available'')
      | Some pc \<Rightarrow>
          (case query_items (by_id (JStr pid)) pc of
             Inl (CosmosHttpResponseError code msg) \<Rightarrow> Inl (HTTPException 404 ''Product not found'')
           | Inl e \<Rightarrow> Inl (Unhandled e)
           | Inr items \<Rightarrow>
               (case items of
                  p # _ \<Rightarrow> Inr (JObj p)
                | [] \<Rightarrow> Inl (HTTPException 404 ''Product not found''))))"

text \<open>
  \<^verbatim>\<open>get_categories\<close>: \<^verbatim>\<open>SELECT DISTINCT c.category FROM c\<close> yields one object per
  distinct value, with the key \<^verbatim>\<open>category\<close> only where the product has one; the
  comprehension then reads \<^verbatim>\<open>item["category"]\<close>.
\<close>

definition project_category :: "doc \<Rightarrow> doc" where
  "project_category c = (case map_of c ''category'' of None \<Rightarrow> [] | Some v \<Rightarrow> [(''category'', v)])"

definition select_distinct :: "doc list \<Rightarrow> doc list" where
  "select_distinct ds = rev (remdups (rev ds))"

fun category_values :: "doc list \<Rightarrow> exn + jval list" where
  "category_values [] = Inr []"
| "category_values (item # items) =
     (case getitem item ''category'' of
        Inl e \<Rightarrow> Inl e
      | Inr v \<Rightarrow>
          (case category_values items of
             Inl e \<Rightarrow> Inl e
           | Inr vs \<Rightarrow> Inr (v # vs)))"

definition get_categories :: "store \<Rightarrow> jval" where
  "get_categories st =
     (case products_container st of
        None \<Rightarrow> JList []
      | Some pc \<Rightarrow>
          (case query_items (\<lambda>c. True) pc of
             Inl e \<Rightarrow> JList []
           | Inr all_items \<Rightarrow>
               (case category_values (select_distinct (map project_category all_items)) of
                  Inl e \<Rightarrow> JList []
                | Inr vs \<Rightarrow> JList vs)))"

section \<open>Auth gate\<close>

text \<open>
  Tokens are symbolic: \<open>JWT claims key alg\<close> is what \<^verbatim>\<open>jwt.encode(claims, key, alg)\<close>
  returns, and only that call under the same key makes a token that
  \<^verbatim>\<open>jwt.decode\<close> accepts. Times are whole seconds since the epoch, which is what the
  JWT library reduces a \<^verbatim>\<open>datetime\<close> to, on encoding and on checking \<^verbatim>\<open>exp\<close>.
\<close>

datatype jwt = JWT (claims: doc) (signing_key: string) (algorithm: string)

datatype jwt_error = JWTError | ExpiredSignatureError | JWTClaimsError

definition jwt_encode :: "doc \<Rightarrow> string \<Rightarrow> string \<Rightarrow> jwt" where
  "jwt_encode to_encode key alg = JWT to_encode key alg"

text \<open>
  \<^verbatim>\<open>jwt.decode\<close>: the algorithm and the signature are checked, then the claims: a token
  whose \<^verbatim>\<open>exp\<close> is before the current time is expired; a \<^verbatim>\<open>sub\<close> that is not a
  string is refused.
\<close>

definition jwt_decode :: "jwt \<Rightarrow> string \<Rightarrow> string list \<Rightarrow> int \<Rightarrow> jwt_error + doc" where
  "jwt_decode t key algorithms now =
     (if algorithm t \<notin> set algorithms then Inl JWTError
      else if signing_key t \<noteq> key then Inl JWTError
      else (case map_of (claims t) ''exp'' of
              Some (JInt expiry) \<Rightarrow>
                if expiry < now then Inl ExpiredSignatureError
                else (case map_of (claims t) ''sub'' of
                        None \<Rightarrow> Inr (claims t)
                      | Some (JStr s) \<Rightarrow> Inr (claims t)
                      | Some _ \<Rightarrow> Inl JWTClaimsError)
            | Some _ \<Rightarrow> Inl JWTClaimsError
            | None \<Rightarrow>
                (case map_of (claims t) ''sub'' of
                   None \<Rightarrow> Inr (claims t)
                 | Some (JStr s) \<Rightarrow> Inr (claims t)
                 | Some _ \<Rightarrow> Inl JWTClaimsError)))"

definition DEMO_USERNAME :: string where
  "DEMO_USERNAME = ''barista''"

definition DEMO_PASSWORD :: string where
  "DEMO_PASSWORD = ''coffee123''"

definition JWT_ALGORITHM :: string where
  "JWT_ALGORITHM = ''HS256''"

definition ACCESS_TOKEN_EXPIRE_MINUTES :: int where
  "ACCESS_TOKEN_EXPIRE_MINUTES = 60"

record LoginRequest =
  username :: string
  password :: string

text \<open>
  \<^verbatim>\<open>create_access_token\<close>; \<open>key\<close> is \<^verbatim>\<open>JWT_SECRET_KEY\<close>, read from the environment.
  \<^verbatim>\<open>expires_delta or timedelta(minutes=...)\<close> takes the default for \<^verbatim>\<open>None\<close> and for
  a zero delta. Durations are in seconds.
\<close>

definition create_access_token :: "string \<Rightarrow> doc \<Rightarrow> int option \<Rightarrow> int \<Rightarrow> jwt" where
  "create_access_token key data expires_delta utcnow =
     (let expire = utcnow +
            (case expires_delta of
               Some d \<Rightarrow> if d \<noteq> 0 then d else ACCESS_TOKEN_EXPIRE_MINUTES * 60
             | None \<Rightarrow> ACCESS_TOKEN_EXPIRE_MINUTES * 60);
          to_encode = setitem data ''exp'' (JInt expire)
      in jwt_encode to_encode key JWT_ALGORITHM)"

record LoginResponse =
  access_token :: jwt
  token_type :: string

text \<open>\<^verbatim>\<open>auth_login\<close> (POST /auth/login).\<close>

definition auth_login :: "string \<Rightarrow> LoginRequest \<Rightarrow> int \<Rightarrow> failure + LoginResponse" where
  "auth_login key body utcnow =
     (if username body \<noteq> DEMO_USERNAME \<or> password body \<noteq> DEMO_PASSWORD
      then Inl (HTTPException 401 ''Invalid credentials'')
      else Inr \<lparr>access_token = create_access_token key [(''sub'', JStr (username body))] None utcnow,
                token_type = ''bearer''\<rparr>)"

text \<open>
  The \<^verbatim>\<open>Authorization\<close> header: absent, a text, or the text \<^verbatim>\<open>Bearer\<close>, a space and a
  token that \<^verbatim>\<open>jwt.encode\<close> made. A text holds no such token: what follows its
  \<^verbatim>\<open>Bearer\<close> prefix fails to decode.
\<close>

datatype header = Text string | BearerToken jwt

text \<open>\<^verbatim>\<open>get_current_user\<close>: every refusal is a 401.\<close>

definition get_current_user :: "string \<Rightarrow> header option \<Rightarrow> int \<Rightarrow> failure + jval" where
  "get_current_user key authorization now =
     (case authorization of
        None \<Rightarrow> Inl (HTTPException 401 ''Not authenticated'')
      | Some (Text s) \<Rightarrow>
          if s = [] \<or> take 7 s \<noteq> ''Bearer '' then Inl (HTTPException 401 ''Not authenticated'')
          else Inl (HTTPException 401 ''Invalid or expired token'')
      | Some (BearerToken token) \<Rightarrow>
          (case jwt_decode token key [JWT_ALGORITHM] now of
             Inl e \<Rightarrow> Inl (HTTPException 401 ''Invalid or expired token'')
           | Inr payload \<Rightarrow>
               (case map_of payload ''sub'' of
                  None \<Rightarrow> Inl (HTTPException 401 ''Invalid token payload'')
                | Some JNull \<Rightarrow> Inl (HTTPException 401 ''Invalid token payload'')
                | Some sub \<Rightarrow> Inr sub)))"

text \<open>
  \<^verbatim>\<open>Depends(get_current_user)\<close>: the framework runs the gate first and calls the handler
  with the identity only when the gate returns one.
\<close>

definition depends_current_user ::
  "string \<Rightarrow> header option \<Rightarrow> int \<Rightarrow> (jval \<Rightarrow> 'a) \<Rightarrow> failure + 'a" where
  "depends_current_user key authorization now handler =
     (case get_current_user key authorization now of
        Inl f \<Rightarrow> Inl f
      | Inr current_user \<Rightarrow> Inr (handler current_user))"

section \<open>Store invariants and vocabulary of the properties\<close>

text \<open>
  What the document store guarantees of a container: every document has a string id,
  and no two documents share id and partition.
\<close>

definition doc_key :: "doc \<Rightarrow> jval option \<times> jval option" where
  "doc_key d = (doc_id d, partition_key d)"

definition wf_container :: "container \<Rightarrow> bool" where
  "wf_container c \<longleftrightarrow> list_all has_string_id (docs c) \<and> distinct (map doc_key (docs c))"

text \<open>The cart lines of a user for a product, and all the lines of a user, in store order.\<close>

definition lines_for :: "container \<Rightarrow> string \<Rightarrow> string \<Rightarrow> doc list" where
  "lines_for c u p = filter (by_user_product u p) (docs c)"

definition lines_of :: "container \<Rightarrow> string \<Rightarrow> doc list" where
  "lines_of c u = filter (by_user u) (docs c)"

text \<open>
  The invariant of the cart: at most one line per pair of \<^verbatim>\<open>user_id\<close> and
  \<^verbatim>\<open>product_id\<close>.
\<close>

definition line_key :: "doc \<Rightarrow> jval option \<times> jval option" where
  "line_key d = (map_of d ''user_id'', map_of d ''product_id'')"

definition is_line :: "doc \<Rightarrow> bool" where
  "is_line d \<longleftrightarrow> map_of d ''user_id'' \<noteq> None \<and> map_of d ''product_id'' \<noteq> None"

definition cart_inv :: "container \<Rightarrow> bool" where
  "cart_inv c \<longleftrightarrow> distinct (map line_key (filter is_line (docs c)))"

text \<open>An id that \<^verbatim>\<open>uuid.uuid4()\<close> may return: no document of the owner's partition has it.\<close>

definition fresh_id :: "string \<Rightarrow> container \<Rightarrow> bool" where
  "fresh_id i c \<longleftrightarrow> \<not> list_ex (item_at (JStr i) DEFAULT_USER) (docs c)"

definition saved :: jval where
  "saved = JObj [(''message'', JStr ''Saved successfully'')]"

definition removed :: jval where
  "removed = JObj [(''message'', JStr ''Removed successfully'')]"

text \<open>The cart line that \<^verbatim>\<open>add_to_cart\<close> creates.\<close>

definition new_line :: "string \<Rightarrow> string \<Rightarrow> int \<Rightarrow> doc" where
  "new_line i p q =
     [(''id'', JStr i), (''user_id'', JStr DEFAULT_USER), (''product_id'', JStr p), (''quantity'', JInt q)]"

definition replace_doc :: "doc \<Rightarrow> doc \<Rightarrow> doc list \<Rightarrow> doc list" where
  "replace_doc x y ds = map (\<lambda>d. if d = x then y else d) ds"

text \<open>The order document that \<^verbatim>\<open>create_order\<close> builds.\<close>

definition order_doc :: "string \<Rightarrow> jval list \<Rightarrow> string \<Rightarrow> doc" where
  "order_doc i items t =
     [(''id'', JStr i), (''user_id'', JStr DEFAULT_USER), (''items'', JList items),
      (''status'', JStr ''confirmed''), (''created_at'', JStr t)]"

text \<open>
  A line of the enriched cart \<open>l\<close> carries the product \<open>p\<close> of the cart line \<open>item\<close>:
  the product's id is the line's \<^verbatim>\<open>product_id\<close>, and \<open>l\<close> is an object with the
  product's id, name and price, the line's quantity, and the product's image and
  category (or their defaults).
\<close>

definition carries :: "doc \<Rightarrow> doc \<Rightarrow> jval \<Rightarrow> bool" where
  "carries item p l \<longleftrightarrow>
     map_of item ''product_id'' \<noteq> None \<and> map_of p ''id'' = map_of item ''product_id'' \<and>
     (case l of
        JObj kvs \<Rightarrow>
          map fst kvs = [''id'', ''name'', ''price'', ''quantity'', ''image'', ''category''] \<and>
          map_of kvs ''id'' = map_of p ''id'' \<and>
          map_of kvs ''name'' = map_of p ''name'' \<and> map_of p ''name'' \<noteq> None \<and>
          map_of kvs ''price'' = map_of p ''price'' \<and> map_of p ''price'' \<noteq> None \<and>
          map_of kvs ''quantity'' = map_of item ''quantity'' \<and> map_of item ''quantity'' \<noteq> None \<and>
          map_of kvs ''image'' = Some (get_default p ''image'' (JStr default_image)) \<and>
          map_of kvs ''category'' = Some (get_default p ''category'' (JStr ''Menu''))
      | _ \<Rightarrow> False)"

text \<open>A cart line whose product does not exist.\<close>

definition dangling :: "container \<Rightarrow> doc \<Rightarrow> bool" where
  "dangling pc item =
     (case map_of item ''product_id'' of
        None \<Rightarrow> False
      | Some pid \<Rightarrow> \<not> list_ex (by_id pid) (docs pc))"

text \<open>
  A cart line that \<^verbatim>\<open>get_cart\<close> can read: it has a \<^verbatim>\<open>product_id\<close>, and when the
  product exists the line has a quantity and the product a name and a price.
\<close>

definition readable_line :: "container \<Rightarrow> doc \<Rightarrow> bool" where
  "readable_line pc item =
     (case map_of item ''product_id'' of
        None \<Rightarrow> False
      | Some pid \<Rightarrow>
          (case filter (by_id pid) (docs pc) of
             [] \<Rightarrow> True
           | p # _ \<Rightarrow>
               map_of item ''quantity'' \<noteq> None \<and> map_of p ''name'' \<noteq> None \<and>
               map_of p ''price'' \<noteq> None))"

section \<open>Example stores, tokens and requests\<close>

definition cart0 :: container where
  "cart0 = \<lparr>docs = [new_line ''a1'' ''7'' 1], fault = None\<rparr>"

definition store0 :: store where
  "store0 = \<lparr>products_container = None, cart_container = Some cart0, orders_container = None\<rparr>"

definition cart_dup :: container where
  "cart_dup = \<lparr>docs = [new_line ''a1'' ''7'' 1, new_line ''a2'' ''7'' 2, new_line ''a3'' ''8'' 1],
                fault = None\<rparr>"

definition store_dup :: store where
  "store_dup = \<lparr>products_container = None, cart_container = Some cart_dup, orders_container = None\<rparr>"

definition guest_line :: doc where
  "guest_line = [(''id'', JStr ''a9''), (''user_id'', JStr ''someone''),
                 (''product_id'', JStr ''3''), (''quantity'', JInt 7)]"

definition cart_two :: container where
  "cart_two = \<lparr>docs = [new_line ''a1'' ''3'' 2, guest_line, new_line ''a2'' ''5'' 1], fault = None\<rparr>"

definition orders0 :: container where
  "orders0 = \<lparr>docs = [], fault = None\<rparr>"

definition store_two :: store where
  "store_two = \<lparr>products_container = None, cart_container = Some cart_two,
                 orders_container = Some orders0\<rparr>"

definition cart_guest :: container where
  "cart_guest = \<lparr>docs = [guest_line], fault = None\<rparr>"

definition store_guest :: store where
  "store_guest = \<lparr>products_container = None, cart_container = Some cart_guest,
                   orders_container = Some orders0\<rparr>"

definition products_cafe :: container where
  "products_cafe =
     \<lparr>docs = [[(''id'', JStr ''1''), (''name'', JStr ''Espresso''), (''category'', JStr ''Coffee''),
               (''price'', JFloat 2.5), (''stock'', JInt 100), (''image'', JStr ''cup'')],
              [(''id'', JStr ''2''), (''name'', JStr ''Scone''), (''price'', JFloat 3)]],
      fault = None\<rparr>"

definition cart_cafe :: container where
  "cart_cafe =
     \<lparr>docs = [new_line ''a1'' ''1'' 2, new_line ''a2'' ''99'' 1, new_line ''a3'' ''2'' 3],
      fault = None\<rparr>"

definition store_cafe :: store where
  "store_cafe = \<lparr>products_container = Some products_cafe, cart_container = Some cart_cafe,
                  orders_container = None\<rparr>"

definition enriched_cafe :: "jval list" where
  "enriched_cafe =
     [JObj [(''id'', JStr ''1''), (''name'', JStr ''Espresso''), (''price'', JFloat 2.5),
            (''quantity'', JInt 2), (''image'', JStr ''cup''), (''category'', JStr ''Coffee'')],
      JObj [(''id'', JStr ''2''), (''name'', JStr ''Scone''), (''price'', JFloat 3),
            (''quantity'', JInt 3), (''image'', JStr default_image), (''category'', JStr ''Menu'')]]"

definition cart_down :: container where
  "cart_down = \<lparr>docs = [new_line ''a1'' ''1'' 2], fault = Some (OtherException ''connection refused'')\<rparr>"

definition products_down :: container where
  "products_down = \<lparr>docs = [], fault = Some (CosmosHttpResponseError 503 ''Service Unavailable'')\<rparr>"

definition store_down :: store where
  "store_down = \<lparr>products_container = Some products_down, cart_container = Some cart_down,
                  orders_container = None\<rparr>"

definition store_products_down :: store where
  "store_products_down = \<lparr>products_container = Some products_down, cart_container = Some cart0,
                  orders_container = None\<rparr>"

definition barista_token :: jwt where
  "barista_token = JWT [(''sub'', JStr ''barista''), (''exp'', JInt 4600)] ''k'' ''HS256''"

definition store_unconfigured :: store where
  "store_unconfigured = \<lparr>products_container = None, cart_container = None, orders_container = None\<rparr>"

definition demo_login :: LoginRequest where
  "demo_login = \<lparr>username = ''barista'', password = ''coffee123''\<rparr>"

definition wrong_login :: LoginRequest where
  "wrong_login = \<lparr>username = ''barista'', password = ''tea123''\<rparr>"

definition alice_token :: jwt where
  "alice_token = JWT [(''sub'', JStr ''alice''), (''exp'', JInt 9000)] ''k'' ''HS256''"

definition guest_row :: doc where
  "guest_row = [(''id'', JStr ''g1''), (''user_id'', JStr ''someone''),
                (''product_id'', JStr ''1''), (''quantity'', JInt 7)]"

definition cart_full :: container where
  "cart_full = \<lparr>docs = [new_line ''a1'' ''1'' 2, guest_row, new_line ''a3'' ''2'' 3], fault = None\<rparr>"

definition owner_order :: doc where
  "owner_order = [(''id'', JStr ''o7''), (''user_id'', JStr ''cafe_guest''),
                  (''items'', JList []), (''status'', JStr ''confirmed''),
                  (''created_at'', JStr ''2024-04-30T09:00:00'')]"

definition guest_order :: doc where
  "guest_order = [(''id'', JStr ''o8''), (''user_id'', JStr ''someone''),
                  (''items'', JList []), (''status'', JStr ''confirmed''),
                  (''created_at'', JStr ''2024-04-30T09:30:00'')]"

definition orders_full :: container where
  "orders_full = \<lparr>docs = [guest_order, owner_order], fault = None\<rparr>"

definition store_full :: store where
  "store_full = \<lparr>products_container = Some products_cafe, cart_container = Some cart_full,
                  orders_container = Some orders_full\<rparr>"

section \<open>Lemmas on documents and containers\<close>

lemma map_of_setitem:
  "map_of (setitem d k v) k' = (if k' = k then Some v else map_of d k')"
  by (induction d) auto

lemma doc_key_setitem_quantity [simp]:
  "doc_key (setitem d ''quantity'' v) = doc_key d"
  by (simp add: doc_key_def doc_id_def partition_key_def map_of_setitem)

lemma same_key_iff: "same_key d d' \<longleftrightarrow> doc_key d = doc_key d'"
  by (auto simp: same_key_def doc_key_def)

lemma has_string_id_setitem_quantity [simp]:
  "has_string_id (setitem d ''quantity'' v) = has_string_id d"
  by (simp add: has_string_id_def doc_id_def map_of_setitem)

lemma by_user_product_setitem_quantity [simp]:
  "by_user_product u p (setitem d ''quantity'' v) = by_user_product u p d"
  by (simp add: by_user_product_def map_of_setitem)

lemma line_key_setitem_quantity [simp]:
  "line_key (setitem d ''quantity'' v) = line_key d"
  by (simp add: line_key_def map_of_setitem)

lemma is_line_setitem_quantity [simp]:
  "is_line (setitem d ''quantity'' v) = is_line d"
  by (simp add: is_line_def map_of_setitem)

lemma getitem_setitem_same [simp]: "getitem (setitem d k v) k = Inr v"
  by (simp add: getitem_def map_of_setitem)

text \<open>Replacing one document of a well-formed container.\<close>

lemma distinct_key_eq:
  "distinct (map doc_key ds) \<Longrightarrow> x \<in> set ds \<Longrightarrow> d \<in> set ds \<Longrightarrow> doc_key d = doc_key x \<longleftrightarrow> d = x"
  by (auto simp: distinct_map inj_on_def)

lemma upsert_existing:
  assumes "fault c = None" "wf_container c" "x \<in> set (docs c)" "doc_key y = doc_key x" "has_string_id y"
  shows "upsert_item y c = Inr (c\<lparr>docs := replace_doc x y (docs c)\<rparr>)"
proof -
  have ex: "list_ex (same_key y) (docs c)"
    using assms(3,4) by (auto simp: list_ex_iff same_key_iff)
  have "map (\<lambda>d'. if same_key y d' then y else d') (docs c) = replace_doc x y (docs c)"
    unfolding replace_doc_def
  proof (rule map_cong[OF refl])
    fix d assume "d \<in> set (docs c)"
    then have "doc_key d = doc_key x \<longleftrightarrow> d = x"
      using assms(2,3) distinct_key_eq by (auto simp: wf_container_def)
    then show "(if same_key y d then y else d) = (if d = x then y else d)"
      using assms(4) by (auto simp: same_key_iff)
  qed
  then show ?thesis
    using assms(1,5) ex by (simp add: upsert_item_def)
qed

lemma add_to_cart_existing:
  assumes "cart_container st = Some cc" "fault cc = None" "wf_container cc"
    and "lines_for cc DEFAULT_USER (product_id item) = x # xs"
  shows "add_to_cart item u i st =
     (saved, st\<lparr>cart_container :=
        Some (cc\<lparr>docs := replace_doc x (setitem x ''quantity'' (JInt (quantity item))) (docs cc)\<rparr>)\<rparr>)"
proof -
  have xin: "x \<in> set (docs cc)"
  proof -
    have "x \<in> set (lines_for cc DEFAULT_USER (product_id item))"
      using assms(4) by simp
    then show ?thesis by (simp add: lines_for_def)
  qed
  then have sid: "has_string_id x"
    using assms(3) by (auto simp: wf_container_def list_all_iff)
  have "upsert_item (setitem x ''quantity'' (JInt (quantity item))) cc =
      Inr (cc\<lparr>docs := replace_doc x (setitem x ''quantity'' (JInt (quantity item))) (docs cc)\<rparr>)"
    using assms(2,3) xin sid by (intro upsert_existing) simp_all
  then show ?thesis
    using assms(1,2,4) by (simp add: add_to_cart_def query_items_def lines_for_def saved_def)
qed

lemma add_to_cart_new:
  assumes "cart_container st = Some cc" "fault cc = None"
    and "lines_for cc DEFAULT_USER (product_id item) = []" "fresh_id i cc"
  shows "add_to_cart item u i st =
     (saved, st\<lparr>cart_container :=
        Some (cc\<lparr>docs := docs cc @ [new_line i (product_id item) (quantity item)]\<rparr>)\<rparr>)"
proof -
  let ?d = "new_line i (product_id item) (quantity item)"
  have a: "has_string_id ?d" by (simp add: has_string_id_def doc_id_def new_line_def)
  have b: "same_key ?d d' \<longleftrightarrow> item_at (JStr i) DEFAULT_USER d'" for d'
    by (auto simp: same_key_def item_at_def doc_id_def partition_key_def new_line_def)
  have "create_item ?d cc = Inr (cc\<lparr>docs := docs cc @ [?d]\<rparr>)"
    using assms(2,4) a b by (simp add: create_item_def fresh_id_def list_ex_iff)
  then show ?thesis
    using assms(1,2,3) by (simp add: add_to_cart_def query_items_def lines_for_def saved_def new_line_def)
qed

lemma wf_distinct_docs: "wf_container c \<Longrightarrow> distinct (docs c)"
  by (simp add: wf_container_def distinct_map)

lemma replace_doc_Cons: "x \<notin> set xs \<Longrightarrow> replace_doc x y (x # xs) = y # xs"
  by (auto simp: replace_doc_def intro!: map_idI)

lemma filter_replace_doc:
  "P y = P x \<Longrightarrow> filter P (replace_doc x y ds) = replace_doc x y (filter P ds)"
  unfolding replace_doc_def by (induction ds) auto

lemma map_replace_doc:
  "f y = f x \<Longrightarrow> map f (replace_doc x y ds) = map f ds"
  unfolding replace_doc_def by (induction ds) auto

lemma list_all_replace_doc:
  "P y \<Longrightarrow> list_all P ds \<Longrightarrow> list_all P (replace_doc x y ds)"
  unfolding replace_doc_def by (induction ds) auto

lemma cart_inv_at_most_one:
  assumes "cart_inv c"
  shows "length (lines_for c u p) \<le> 1"
proof -
  have "distinct (map line_key (filter is_line ds)) \<Longrightarrow> length (filter (by_user_product u p) ds) \<le> 1" for ds
  proof (induction ds)
    case Nil
    then show ?case by simp
  next
    case (Cons d ds)
    show ?case
    proof (cases "by_user_product u p d")
      case True
      then have k: "line_key d = (Some (JStr u), Some (JStr p))" "is_line d"
        by (auto simp: by_user_product_def line_key_def is_line_def)
      have "filter (by_user_product u p) ds = []"
      proof (rule ccontr)
        assume "filter (by_user_product u p) ds \<noteq> []"
        then obtain e where e: "e \<in> set ds" "by_user_product u p e"
          by (metis filter_False)
        then have "line_key e = line_key d" "is_line e"
          using k by (auto simp: by_user_product_def line_key_def is_line_def)
        with e Cons.prems k show False by force
      qed
      with True show ?thesis by simp
    next
      case False
      with Cons show ?thesis by (auto split: if_splits)
    qed
  qed
  from this[of "docs c"] assms show ?thesis by (simp add: cart_inv_def lines_for_def)
qed

lemma add_to_cart_step_item:
  assumes st: "cart_container st = Some cc" and ok: "fault cc = None" "wf_container cc"
    and fresh: "fresh_id i cc"
  shows "\<exists>cc'. add_to_cart item u i st = (saved, st\<lparr>cart_container := Some cc'\<rparr>)
      \<and> fault cc' = None \<and> wf_container cc'
      \<and> lines_for cc' DEFAULT_USER (product_id item) =
          (case lines_for cc DEFAULT_USER (product_id item) of
             [] \<Rightarrow> [new_line i (product_id item) (quantity item)]
           | x # xs \<Rightarrow> setitem x ''quantity'' (JInt (quantity item)) # xs)
      \<and> (cart_inv cc \<longrightarrow> cart_inv cc')
      \<and> (\<forall>p. p \<noteq> product_id item \<longrightarrow> lines_for cc' DEFAULT_USER p = lines_for cc DEFAULT_USER p)
      \<and> (\<forall>w p. w \<noteq> DEFAULT_USER \<longrightarrow> lines_for cc' w p = lines_for cc w p)"
proof (cases "lines_for cc DEFAULT_USER (product_id item)")
  case Nil
  let ?nl = "new_line i (product_id item) (quantity item)"
  let ?cc = "cc\<lparr>docs := docs cc @ [?nl]\<rparr>"
  have dk: "doc_key ?nl = (Some (JStr i), Some (JStr DEFAULT_USER))"
    by (simp add: doc_key_def doc_id_def partition_key_def new_line_def)
  have "doc_key ?nl \<notin> doc_key ` set (docs cc)"
    using fresh unfolding dk
    by (auto simp: fresh_id_def list_ex_iff item_at_def doc_key_def)
  then have wf: "wf_container ?cc"
    using ok(2) by (simp add: wf_container_def has_string_id_def doc_id_def new_line_def)
  have lk: "line_key ?nl = (Some (JStr DEFAULT_USER), Some (JStr (product_id item)))"
    by (simp add: line_key_def new_line_def)
  have no: "d \<in> set (docs cc) \<Longrightarrow> line_key d \<noteq> line_key ?nl" for d
  proof
    assume "d \<in> set (docs cc)" "line_key d = line_key ?nl"
    then have "d \<in> set (lines_for cc DEFAULT_USER (product_id item))"
      unfolding lk by (simp add: lines_for_def by_user_product_def line_key_def)
    with Nil show False by simp
  qed
  have "line_key ?nl \<notin> line_key ` set (filter is_line (docs cc))"
    using no by force
  then have inv: "cart_inv cc \<Longrightarrow> cart_inv ?cc"
    by (simp add: cart_inv_def)
  have l1: "lines_for ?cc DEFAULT_USER (product_id item) = [?nl]"
    using Nil by (simp add: lines_for_def by_user_product_def new_line_def)
  have l2: "p \<noteq> product_id item \<Longrightarrow> lines_for ?cc DEFAULT_USER p = lines_for cc DEFAULT_USER p" for p
    by (simp add: lines_for_def by_user_product_def new_line_def)
  have l3: "w \<noteq> DEFAULT_USER \<Longrightarrow> lines_for ?cc w p = lines_for cc w p" for w p
    by (simp add: lines_for_def by_user_product_def new_line_def)
  show ?thesis
    using add_to_cart_new[OF st ok(1) Nil fresh, of u] ok(1) wf inv l1 l2 l3 Nil
    by (intro exI[of _ ?cc]) simp
next
  case (Cons x xs)
  let ?y = "setitem x ''quantity'' (JInt (quantity item))"
  let ?cc = "cc\<lparr>docs := replace_doc x ?y (docs cc)\<rparr>"
  have "distinct (lines_for cc DEFAULT_USER (product_id item))"
    using wf_distinct_docs[OF ok(2)] by (simp add: lines_for_def)
  then have nx: "x \<notin> set xs" using Cons by simp
  have xin: "x \<in> set (docs cc)"
  proof -
    have "x \<in> set (lines_for cc DEFAULT_USER (product_id item))"
      using Cons by simp
    then show ?thesis by (simp add: lines_for_def)
  qed
  then have "has_string_id ?y"
    using ok(2) by (simp add: wf_container_def list_all_iff)
  then have wf: "wf_container ?cc"
    using ok(2) by (simp add: wf_container_def map_replace_doc list_all_replace_doc)
  have inv: "cart_inv cc \<Longrightarrow> cart_inv ?cc"
    by (simp add: cart_inv_def filter_replace_doc map_replace_doc)
  have lf: "lines_for ?cc w p = replace_doc x ?y (lines_for cc w p)" for w p
    by (simp add: lines_for_def filter_replace_doc)
  have l1: "lines_for ?cc DEFAULT_USER (product_id item) = ?y # xs"
    using Cons nx by (simp add: lf replace_doc_Cons)
  have xp: "by_user_product DEFAULT_USER (product_id item) x"
  proof -
    have "x \<in> set (lines_for cc DEFAULT_USER (product_id item))"
      using Cons by simp
    then show ?thesis by (simp add: lines_for_def)
  qed
  have l2: "lines_for ?cc w p = lines_for cc w p" if "\<not> by_user_product w p x" for w p
  proof -
    have "x \<notin> set (lines_for cc w p)" using that by (simp add: lines_for_def)
    then have "replace_doc x ?y (lines_for cc w p) = lines_for cc w p"
      by (auto simp: replace_doc_def intro!: map_idI)
    then show ?thesis by (simp add: lf)
  qed
  have l3: "p \<noteq> product_id item \<Longrightarrow> lines_for ?cc DEFAULT_USER p = lines_for cc DEFAULT_USER p" for p
    using xp by (intro l2) (auto simp: by_user_product_def)
  have l4: "w \<noteq> DEFAULT_USER \<Longrightarrow> lines_for ?cc w p = lines_for cc w p" for w p
    using xp by (intro l2) (auto simp: by_user_product_def)
  show ?thesis
    using add_to_cart_existing[OF st ok Cons, of u i] ok(1) wf inv l1 l3 l4 Cons
    by (intro exI[of _ ?cc]) simp
qed

lemma add_to_cart_step:
  assumes "cart_container st = Some cc" and "fault cc = None" and "wf_container cc"
    and "fresh_id i cc"
  shows "\<exists>cc'. add_to_cart \<lparr>product_id = p, quantity = q\<rparr> u i st =
          (saved, st\<lparr>cart_container := Some cc'\<rparr>)
      \<and> fault cc' = None \<and> wf_container cc'
      \<and> lines_for cc' DEFAULT_USER p =
          (case lines_for cc DEFAULT_USER p of
             [] \<Rightarrow> [new_line i p q]
           | x # xs \<Rightarrow> setitem x ''quantity'' (JInt q) # xs)
      \<and> (cart_inv cc \<longrightarrow> cart_inv cc')
      \<and> (\<forall>p'. p' \<noteq> p \<longrightarrow> lines_for cc' DEFAULT_USER p' = lines_for cc DEFAULT_USER p')
      \<and> (\<forall>w p'. w \<noteq> DEFAULT_USER \<longrightarrow> lines_for cc' w p' = lines_for cc w p')"
  using add_to_cart_step_item[OF assms, of "\<lparr>product_id = p, quantity = q\<rparr>" u]
  by (simp cong: list.case_cong)

lemma cart_inv_single:
  "cart_inv c \<Longrightarrow> lines_for c u p = x # xs \<Longrightarrow> xs = []"
  using cart_inv_at_most_one[of c u p] by simp

lemma wf_cart0: "wf_container cart0"
  by (simp add: cart0_def wf_container_def has_string_id_def doc_id_def new_line_def)

lemma cart_inv_cart0: "cart_inv cart0"
  by (simp add: cart0_def cart_inv_def)

lemma fresh_cart0: "fresh_id ''b2'' cart0"
  by (simp add: cart0_def fresh_id_def item_at_def doc_id_def new_line_def)

lemma delete_each_docs:
  assumes "fault c = None" and "wf_container c"
    and "set items \<subseteq> set (docs c)" and "distinct items"
    and "list_all (by_user DEFAULT_USER) items"
  shows "delete_each items c = (None, c\<lparr>docs := filter (\<lambda>d. d \<notin> set items) (docs c)\<rparr>)"
  using assms
proof (induction items arbitrary: c)
  case Nil
  then show ?case by simp
next
  case (Cons item items)
  have item_in: "item \<in> set (docs c)" using Cons.prems(3) by simp
  then have "has_string_id item"
    using Cons.prems(2) by (simp add: wf_container_def list_all_iff)
  then obtain i where i: "doc_id item = Some (JStr i)"
    by (auto simp: has_string_id_def split: option.splits jval.splits)
  have pk: "partition_key item = Some (JStr DEFAULT_USER)"
    using Cons.prems(5) by (simp add: by_user_def partition_key_def)
  have at: "item_at (JStr i) DEFAULT_USER d \<longleftrightarrow> d = item" if "d \<in> set (docs c)" for d
  proof -
    have "item_at (JStr i) DEFAULT_USER d \<longleftrightarrow> doc_key d = doc_key item"
      using i pk by (auto simp: item_at_def doc_key_def)
    then show ?thesis
      using distinct_key_eq[of "docs c" item d] Cons.prems(2) item_in that
      by (simp add: wf_container_def)
  qed
  have ex: "list_ex (item_at (JStr i) DEFAULT_USER) (docs c)"
    using item_in at by (auto simp: list_ex_iff)
  have flt: "filter (\<lambda>d. \<not> item_at (JStr i) DEFAULT_USER d) (docs c) = filter (\<lambda>d. d \<noteq> item) (docs c)"
    using at by (intro filter_cong) auto
  let ?c = "c\<lparr>docs := filter (\<lambda>d. d \<noteq> item) (docs c)\<rparr>"
  have del: "delete_item (JStr i) DEFAULT_USER c = Inr ?c"
    using Cons.prems(1) ex flt by (simp add: delete_item_def)
  have gi: "getitem item ''id'' = Inr (JStr i)"
    using i by (simp add: getitem_def doc_id_def)
  have wf': "wf_container ?c"
    using Cons.prems(2) by (simp add: wf_container_def list_all_iff distinct_map_filter)
  have sub: "set items \<subseteq> set (docs ?c)"
    using Cons.prems(3,4) by auto
  have "delete_each items ?c = (None, ?c\<lparr>docs := filter (\<lambda>d. d \<notin> set items) (docs ?c)\<rparr>)"
    using Cons.prems(1,4,5) by (intro Cons.IH wf' sub) simp_all
  moreover have "filter (\<lambda>d. d \<notin> set items) (docs ?c) = filter (\<lambda>d. d \<notin> set (item # items)) (docs c)"
    by (auto intro: filter_cong)
  ultimately show ?case
    using gi del by simp
qed

lemma delete_each_query:
  assumes "fault c = None" and "wf_container c" and "\<And>d. P d \<Longrightarrow> by_user DEFAULT_USER d"
  shows "delete_each (filter P (docs c)) c = (None, c\<lparr>docs := filter (\<lambda>d. \<not> P d) (docs c)\<rparr>)"
proof -
  have "delete_each (filter P (docs c)) c =
      (None, c\<lparr>docs := filter (\<lambda>d. d \<notin> set (filter P (docs c))) (docs c)\<rparr>)"
    using assms wf_distinct_docs[OF assms(2)]
    by (intro delete_each_docs) (auto simp: list_all_iff)
  moreover have "filter (\<lambda>d. d \<notin> set (filter P (docs c))) (docs c) = filter (\<lambda>d. \<not> P d) (docs c)"
    by (intro filter_cong) auto
  ultimately show ?thesis by simp
qed

lemma store_cart_same: "cart_container st = Some cc \<Longrightarrow> st\<lparr>cart_container := Some cc\<rparr> = st"
  by (cases st) simp

lemma wf_cart_dup: "wf_container cart_dup"
  by (simp add: cart_dup_def wf_container_def has_string_id_def doc_id_def new_line_def
      doc_key_def partition_key_def)

lemma create_order_ok:
  assumes "orders_container st = Some oc" and "cart_container st = Some cc"
    and "fault oc = None" and "fault cc = None" and "wf_container cc"
    and "fresh_id i oc"
    and "order_items (lines_of cc DEFAULT_USER) = Inr items"
  shows "create_order caller i t st =
     (JObj (order_doc i items t),
      st\<lparr>cart_container := Some (cc\<lparr>docs := filter (\<lambda>d. \<not> by_user DEFAULT_USER d) (docs cc)\<rparr>),
         orders_container := Some (oc\<lparr>docs := docs oc @ [order_doc i items t]\<rparr>)\<rparr>)"
proof -
  let ?o = "order_doc i items t"
  have a: "has_string_id ?o" by (simp add: has_string_id_def doc_id_def order_doc_def)
  have b: "same_key ?o d' \<longleftrightarrow> item_at (JStr i) DEFAULT_USER d'" for d'
    by (auto simp: same_key_def item_at_def doc_id_def partition_key_def order_doc_def)
  have cr: "create_item ?o oc = Inr (oc\<lparr>docs := docs oc @ [?o]\<rparr>)"
    using assms(3,6) a b by (simp add: create_item_def fresh_id_def list_ex_iff)
  have del: "delete_each (filter (by_user DEFAULT_USER) (docs cc)) cc =
      (None, cc\<lparr>docs := filter (\<lambda>d. \<not> by_user DEFAULT_USER d) (docs cc)\<rparr>)"
    using assms(4,5) by (intro delete_each_query) simp_all
  show ?thesis
    using assms(1,2,4,7) cr del
    by (simp add: create_order_def query_items_def lines_of_def order_doc_def Let_def)
qed

lemma wf_cart_two: "wf_container cart_two"
  by (simp add: cart_two_def wf_container_def has_string_id_def doc_id_def new_line_def
      doc_key_def partition_key_def guest_line_def)

lemma fresh_orders0: "fresh_id i orders0"
  by (simp add: fresh_id_def orders0_def)

lemma lines_of_cart_two:
  "lines_of cart_two DEFAULT_USER = [new_line ''a1'' ''3'' 2, new_line ''a2'' ''5'' 1]"
  by (simp add: lines_of_def cart_two_def by_user_def new_line_def guest_line_def DEFAULT_USER_def)

lemma enrich_loop_carries:
  "enrich_loop pc items acc = Inr res \<Longrightarrow>
     \<exists>new. res = acc @ new \<and>
       list_all (\<lambda>l. list_ex (\<lambda>item. list_ex (\<lambda>p. carries item p l) (docs pc)) items) new"
proof (induction items arbitrary: acc res)
  case Nil
  then show ?case by simp
next
  case (Cons item items)
  from Cons.prems obtain pid where pid: "map_of item ''product_id'' = Some pid"
    by (auto simp: getitem_def split: option.splits)
  from Cons.prems pid have nf: "fault pc = None"
    by (auto simp: getitem_def query_items_def split: option.splits)
  have weaken: "list_all (\<lambda>l. list_ex (\<lambda>i. list_ex (\<lambda>p. carries i p l) (docs pc)) (item # items)) new"
    if "list_all (\<lambda>l. list_ex (\<lambda>i. list_ex (\<lambda>p. carries i p l) (docs pc)) items) new" for new
    using that by (auto simp: list_all_iff list_ex_iff)
  show ?case
  proof (cases "filter (by_id pid) (docs pc)")
    case Nil
    then have "enrich_loop pc items acc = Inr res"
      using Cons.prems pid nf by (simp add: getitem_def query_items_def)
    from Cons.IH[OF this] weaken show ?thesis by blast
  next
    case (Cons p ps)
    then have pin: "p \<in> set (docs pc)" and pid_p: "map_of p ''id'' = Some pid"
      by (auto simp: filter_eq_Cons_iff by_id_def)
    from Cons.prems pid nf Cons obtain n pr q where
      f: "map_of p ''name'' = Some n" "map_of p ''price'' = Some pr" "map_of item ''quantity'' = Some q"
      and rec: "enrich_loop pc items
          (acc @ [JObj [(''id'', pid), (''name'', n), (''price'', pr), (''quantity'', q),
                        (''image'', get_default p ''image'' (JStr default_image)),
                        (''category'', get_default p ''category'' (JStr ''Menu''))]]) = Inr res"
      using pid_p by (auto simp: getitem_def query_items_def split: option.splits)
    let ?l = "JObj [(''id'', pid), (''name'', n), (''price'', pr), (''quantity'', q),
                        (''image'', get_default p ''image'' (JStr default_image)),
                        (''category'', get_default p ''category'' (JStr ''Menu''))]"
    from Cons.IH[OF rec] obtain new where
      new: "res = (acc @ [?l]) @ new"
        "list_all (\<lambda>l. list_ex (\<lambda>i. list_ex (\<lambda>p. carries i p l) (docs pc)) items) new"
      by blast
    have "carries item p ?l"
      using pid pid_p f by (simp add: carries_def)
    then have "list_ex (\<lambda>i. list_ex (\<lambda>p. carries i p ?l) (docs pc)) (item # items)"
      using pin by (auto simp: list_ex_iff)
    then show ?thesis
      using new weaken[OF new(2)] by (intro exI[of _ "?l # new"]) simp
  qed
qed

lemma enrich_loop_skips_dangling:
  "fault pc = None \<Longrightarrow>
     enrich_loop pc (filter (\<lambda>d. \<not> dangling pc d) items) acc = enrich_loop pc items acc"
proof (induction items arbitrary: acc)
  case Nil
  then show ?case by simp
next
  case (Cons item items)
  show ?case
  proof (cases "dangling pc item")
    case True
    then obtain pid where "map_of item ''product_id'' = Some pid" "filter (by_id pid) (docs pc) = []"
      by (auto simp: dangling_def list_ex_iff filter_empty_conv split: option.splits)
    then show ?thesis
      using True Cons by (simp add: getitem_def query_items_def)
  next
    case False
    then show ?thesis
      using Cons by (simp add: getitem_def query_items_def split: option.splits list.splits)
  qed
qed

lemma enrich_loop_total:
  "fault pc = None \<Longrightarrow> list_all (readable_line pc) items \<Longrightarrow>
     \<exists>new. enrich_loop pc items acc = Inr (acc @ new) \<and>
       length new = length (filter (\<lambda>d. \<not> dangling pc d) items)"
proof (induction items arbitrary: acc)
  case Nil
  then show ?case by simp
next
  case (Cons item items)
  from Cons.prems obtain pid where pid: "map_of item ''product_id'' = Some pid"
    by (auto simp: readable_line_def split: option.splits)
  show ?case
  proof (cases "filter (by_id pid) (docs pc)")
    case Nil
    then have d: "dangling pc item"
      using pid by (simp add: dangling_def list_ex_iff filter_empty_conv)
    have "enrich_loop pc (item # items) acc = enrich_loop pc items acc"
      using Nil pid Cons.prems(1) by (simp add: getitem_def query_items_def)
    then show ?thesis
      using Cons.IH[of acc] Cons.prems d by simp
  next
    case (Cons p ps)
    then have nd: "\<not> dangling pc item" and pid_p: "map_of p ''id'' = Some pid"
      using pid by (auto simp: dangling_def list_ex_iff filter_eq_Cons_iff by_id_def)
    from Cons.prems pid Cons obtain n pr q where
      f: "map_of p ''name'' = Some n" "map_of p ''price'' = Some pr" "map_of item ''quantity'' = Some q"
      by (auto simp: readable_line_def)
    let ?l = "JObj [(''id'', pid), (''name'', n), (''price'', pr), (''quantity'', q),
                        (''image'', get_default p ''image'' (JStr default_image)),
                        (''category'', get_default p ''category'' (JStr ''Menu''))]"
    have step: "enrich_loop pc (item # items) acc = enrich_loop pc items (acc @ [?l])"
      using Cons pid pid_p f Cons.prems(1) by (simp add: getitem_def query_items_def)
    from Cons.IH[of "acc @ [?l]"] Cons.prems obtain new where
      "enrich_loop pc items (acc @ [?l]) = Inr ((acc @ [?l]) @ new)"
      "length new = length (filter (\<lambda>d. \<not> dangling pc d) items)"
      by auto
    then show ?thesis
      using step nd by (intro exI[of _ "?l # new"]) simp
  qed
qed

lemma lines_of_without_dangling:
  "lines_of (cc\<lparr>docs := filter (\<lambda>d. \<not> dangling pc d) (docs cc)\<rparr>) u =
     filter (\<lambda>d. \<not> dangling pc d) (lines_of cc u)"
  by (simp add: lines_of_def conj_commute)

lemma lines_of_cart_cafe:
  "lines_of cart_cafe DEFAULT_USER = [new_line ''a1'' ''1'' 2, new_line ''a2'' ''99'' 1, new_line ''a3'' ''2'' 3]"
  by (simp add: lines_of_def cart_cafe_def by_user_def new_line_def)

lemma get_cart_store_cafe: "get_cart caller store_cafe = JList enriched_cafe"
  by (simp add: get_cart_def store_cafe_def query_items_def cart_cafe_def products_cafe_def
      by_user_def new_line_def getitem_def by_id_def get_default_def enriched_cafe_def)

lemma barista_token_accepted:
  "get_current_user ''k'' (Some (BearerToken barista_token)) 1000 = Inr (JStr ''barista'')"
  by (simp add: get_current_user_def jwt_decode_def barista_token_def JWT_ALGORITHM_def)

lemma alice_token_accepted:
  "get_current_user ''k'' (Some (BearerToken alice_token)) 2000 = Inr (JStr ''alice'')"
  by (simp add: get_current_user_def jwt_decode_def alice_token_def JWT_ALGORITHM_def)

lemma filter_not_replace_doc:
  "P x \<Longrightarrow> P y \<Longrightarrow> filter (\<lambda>d. \<not> P d) (replace_doc x y ds) = filter (\<lambda>d. \<not> P d) ds"
  unfolding replace_doc_def by (induction ds) auto

lemma store_cart_inject:
  "st\<lparr>cart_container := Some a\<rparr> = st\<lparr>cart_container := Some b\<rparr> \<Longrightarrow> a = b"
  by (cases st) simp

lemma add_to_cart_rows:
  assumes st: "cart_container st = Some cc" and ok: "fault cc = None" "wf_container cc"
    and fresh: "fresh_id i cc"
  shows "\<exists>cc'. add_to_cart item u i st = (saved, st\<lparr>cart_container := Some cc'\<rparr>)
      \<and> lines_for cc' DEFAULT_USER (product_id item) =
          (case lines_for cc DEFAULT_USER (product_id item) of
             [] \<Rightarrow> [new_line i (product_id item) (quantity item)]
           | x # xs \<Rightarrow> setitem x ''quantity'' (JInt (quantity item)) # xs)
      \<and> filter (\<lambda>d. \<not> by_user DEFAULT_USER d) (docs cc') =
          filter (\<lambda>d. \<not> by_user DEFAULT_USER d) (docs cc)"
proof -
  let ?p = "product_id item" and ?q = "quantity item"
  obtain cc' where r: "add_to_cart item u i st = (saved, st\<lparr>cart_container := Some cc'\<rparr>)"
    and l: "lines_for cc' DEFAULT_USER ?p =
          (case lines_for cc DEFAULT_USER ?p of
             [] \<Rightarrow> [new_line i ?p ?q]
           | x # xs \<Rightarrow> setitem x ''quantity'' (JInt ?q) # xs)"
    using add_to_cart_step_item[OF st ok fresh, of item u] by blast
  have "filter (\<lambda>d. \<not> by_user DEFAULT_USER d) (docs cc') =
          filter (\<lambda>d. \<not> by_user DEFAULT_USER d) (docs cc)"
  proof (cases "lines_for cc DEFAULT_USER ?p")
    case Nil
    from add_to_cart_new[OF st ok(1) Nil fresh, of u] r
    have "cc' = cc\<lparr>docs := docs cc @ [new_line i ?p ?q]\<rparr>"
      using store_cart_inject by auto
    then show ?thesis by (simp add: by_user_def new_line_def)
  next
    case (Cons x xs)
    let ?y = "setitem x ''quantity'' (JInt ?q)"
    from add_to_cart_existing[OF st ok Cons, of u i] r
    have c: "cc' = cc\<lparr>docs := replace_doc x ?y (docs cc)\<rparr>"
      using store_cart_inject by auto
    have "x \<in> set (lines_for cc DEFAULT_USER ?p)" using Cons by simp
    then have "by_user DEFAULT_USER x"
      by (simp add: lines_for_def by_user_product_def by_user_def)
    moreover from this have "by_user DEFAULT_USER ?y"
      by (simp add: by_user_def map_of_setitem)
    ultimately show ?thesis
      using c by (simp add: filter_not_replace_doc)
  qed
  with r l show ?thesis by blast
qed

lemma remove_from_cart_rows:
  assumes "cart_container st = Some cc" and "fault cc = None" and "wf_container cc"
  shows "remove_from_cart pid caller st =
     (removed, st\<lparr>cart_container :=
        Some (cc\<lparr>docs := filter (\<lambda>d. \<not> by_user_product DEFAULT_USER pid d) (docs cc)\<rparr>)\<rparr>)"
proof -
  have "delete_each (filter (by_user_product DEFAULT_USER pid) (docs cc)) cc =
      (None, cc\<lparr>docs := filter (\<lambda>d. \<not> by_user_product DEFAULT_USER pid d) (docs cc)\<rparr>)"
    using assms(2,3) by (intro delete_each_query) (simp_all add: by_user_product_def by_user_def)
  then show ?thesis
    using assms by (simp add: remove_from_cart_def query_items_def removed_def)
qed

lemma wf_cart_full: "wf_container cart_full"
  by (simp add: cart_full_def wf_container_def has_string_id_def doc_id_def new_line_def
      doc_key_def partition_key_def guest_row_def)

lemma fresh_cart_full: "fresh_id ''n1'' cart_full"
  by (simp add: fresh_id_def cart_full_def item_at_def doc_id_def partition_key_def
      new_line_def guest_row_def)

lemma fresh_orders_full: "fresh_id ''n1'' orders_full"
  by (simp add: fresh_id_def orders_full_def item_at_def doc_id_def partition_key_def
      owner_order_def guest_order_def)

lemma owner_rows_cart_full:
  "filter (by_user ''cafe_guest'') (docs cart_full) = [new_line ''a1'' ''1'' 2, new_line ''a3'' ''2'' 3]"
  by (simp add: cart_full_def by_user_def new_line_def guest_row_def DEFAULT_USER_def)

lemma other_rows_cart_full:
  "filter (\<lambda>d. \<not> by_user ''cafe_guest'' d) (docs cart_full) = [guest_row]"
  by (simp add: cart_full_def by_user_def new_line_def guest_row_def DEFAULT_USER_def)

lemma enrich_cart_full:
  "enrich_loop products_cafe [new_line ''a1'' ''1'' 2, new_line ''a3'' ''2'' 3] [] = Inr enriched_cafe"
  by (simp add: products_cafe_def query_items_def new_line_def getitem_def by_id_def
      get_default_def enriched_cafe_def)

section \<open>The claims\<close>

text \<open>
  Claim C2. On a store that answers, with the cart container well formed and the id that
  \<^verbatim>\<open>uuid4\<close> returns not yet taken: after \<^verbatim>\<open>add_to_cart\<close> with quantity 3 and then
  with quantity 5 for the same product, by any callers, both calls answer
  "Saved successfully" and the owner's first line for the product has quantity 5, not
  8; it is the only line for the product when the cart had at most one line per user and
  product before.
\<close>

theorem upsert_overwrites_quantity:
  assumes "cart_container st = Some cc" and "fault cc = None" and "wf_container cc"
    and "fresh_id idA cc"
    and "add_to_cart \<lparr>product_id = pid, quantity = 3\<rparr> callerA idA st = (r1, st1)"
    and "add_to_cart \<lparr>product_id = pid, quantity = 5\<rparr> callerB idB st1 = (r2, st2)"
  shows "r1 = saved \<and> r2 = saved \<and>
    (\<exists>cc2 l rest. cart_container st2 = Some cc2 \<and>
       lines_for cc2 DEFAULT_USER pid = l # rest \<and>
       getitem l ''quantity'' = Inr (JInt 5) \<and>
       (cart_inv cc \<longrightarrow> rest = []))"
proof -
  let ?i1 = "\<lparr>product_id = pid, quantity = 3\<rparr>"
  let ?i2 = "\<lparr>product_id = pid, quantity = 5\<rparr>"
  obtain cc1 where s1: "add_to_cart ?i1 callerA idA st = (saved, st\<lparr>cart_container := Some cc1\<rparr>)"
    and ok1: "fault cc1 = None" "wf_container cc1"
    and l1: "lines_for cc1 DEFAULT_USER pid =
          (case lines_for cc DEFAULT_USER pid of
             [] \<Rightarrow> [new_line idA pid 3]
           | x # xs \<Rightarrow> setitem x ''quantity'' (JInt 3) # xs)"
    and inv1: "cart_inv cc \<longrightarrow> cart_inv cc1"
    using add_to_cart_step[OF assms(1-4), of pid 3 callerA] by auto
  from l1 obtain x xs where x: "lines_for cc1 DEFAULT_USER pid = x # xs"
    by (cases "lines_for cc DEFAULT_USER pid") auto
  have st1: "st1 = st\<lparr>cart_container := Some cc1\<rparr>" and r1: "r1 = saved"
    using assms(5) s1 by auto
  then have c1: "cart_container st1 = Some cc1" by simp
  have s2: "add_to_cart ?i2 callerB idB st1 =
      (saved, st1\<lparr>cart_container := Some
         (cc1\<lparr>docs := replace_doc x (setitem x ''quantity'' (JInt 5)) (docs cc1)\<rparr>)\<rparr>)"
    using add_to_cart_existing[OF c1 ok1, of ?i2 x xs callerB idB] x by simp
  let ?cc2 = "cc1\<lparr>docs := replace_doc x (setitem x ''quantity'' (JInt 5)) (docs cc1)\<rparr>"
  have "distinct (lines_for cc1 DEFAULT_USER pid)"
    using wf_distinct_docs[OF ok1(2)] by (simp add: lines_for_def)
  then have nx: "x \<notin> set xs" using x by simp
  have l2: "lines_for ?cc2 DEFAULT_USER pid = setitem x ''quantity'' (JInt 5) # xs"
    using x nx by (simp add: lines_for_def filter_replace_doc replace_doc_Cons)
  have "cart_inv cc \<Longrightarrow> xs = []"
    using inv1 x cart_inv_single by blast
  moreover have "r2 = saved" "cart_container st2 = Some ?cc2"
    using assms(6) s2 by auto
  ultimately show ?thesis
    using r1 l2 by auto
qed

theorem upsert_overwrites_quantity_witness:
  "cart_container store0 = Some cart0 \<and> fault cart0 = None \<and> wf_container cart0 \<and>
   fresh_id ''b2'' cart0 \<and>
   (\<exists>cc2 l rest.
      cart_container (snd (add_to_cart \<lparr>product_id = ''7'', quantity = 5\<rparr> (JStr ''barista'') ''c3''
        (snd (add_to_cart \<lparr>product_id = ''7'', quantity = 3\<rparr> (JStr ''barista'') ''b2'' store0)))) = Some cc2 \<and>
      lines_for cc2 DEFAULT_USER ''7'' = l # rest \<and>
      getitem l ''quantity'' = Inr (JInt 5) \<and> rest = [])"
proof -
  have h: "cart_container store0 = Some cart0" "fault cart0 = None"
    by (simp_all add: store0_def cart0_def)
  show ?thesis
    using upsert_overwrites_quantity[where st=store0 and cc=cart0 and idA="''b2''"
        and pid="''7''" and callerA="JStr ''barista''" and callerB="JStr ''barista''" and idB="''c3''",
        OF h wf_cart0 fresh_cart0 surjective_pairing surjective_pairing]
      h wf_cart0 fresh_cart0 cart_inv_cart0
    by simp
qed

text \<open>
  Claim C3. \<^verbatim>\<open>add_to_cart\<close> preserves the invariant "at most one line per user and
  product": from a well-formed cart that satisfies it, on a store that answers and with
  a fresh id, the cart after the call satisfies it and holds exactly one line of the
  owner for the product; after a second call with the same quantity it still does, and
  that line has the quantity.
\<close>

theorem upsert_keeps_one_line_per_product:
  assumes "cart_container st = Some cc" and "fault cc = None" and "wf_container cc"
    and "cart_inv cc" and "fresh_id idA cc"
    and "add_to_cart \<lparr>product_id = pid, quantity = q\<rparr> callerA idA st = (rA, stA)"
    and "add_to_cart \<lparr>product_id = pid, quantity = q\<rparr> callerB idB stA = (rB, stB)"
  shows "\<exists>ccA ccB l.
       cart_container stA = Some ccA \<and> cart_inv ccA \<and>
       length (lines_for ccA DEFAULT_USER pid) = 1 \<and>
       cart_container stB = Some ccB \<and> cart_inv ccB \<and>
       lines_for ccB DEFAULT_USER pid = [l] \<and> getitem l ''quantity'' = Inr (JInt q)"
proof -
  obtain ccA where sA: "add_to_cart \<lparr>product_id = pid, quantity = q\<rparr> callerA idA st =
        (saved, st\<lparr>cart_container := Some ccA\<rparr>)"
    and okA: "fault ccA = None" "wf_container ccA"
    and lA: "lines_for ccA DEFAULT_USER pid =
          (case lines_for cc DEFAULT_USER pid of
             [] \<Rightarrow> [new_line idA pid q]
           | x # xs \<Rightarrow> setitem x ''quantity'' (JInt q) # xs)"
    and invA: "cart_inv ccA"
    using add_to_cart_step[OF assms(1-3,5), of pid q callerA] assms(4) by auto
  from lA obtain x xs where x: "lines_for ccA DEFAULT_USER pid = x # xs"
    by (cases "lines_for cc DEFAULT_USER pid") auto
  have xs: "xs = []" using cart_inv_single[OF invA x] .
  have qx: "getitem x ''quantity'' = Inr (JInt q)"
    using lA x by (cases "lines_for cc DEFAULT_USER pid") (auto simp: new_line_def getitem_def map_of_setitem)
  have stA: "stA = st\<lparr>cart_container := Some ccA\<rparr>"
    using assms(6) sA by simp
  then have cA: "cart_container stA = Some ccA" by simp
  let ?ccB = "ccA\<lparr>docs := replace_doc x (setitem x ''quantity'' (JInt q)) (docs ccA)\<rparr>"
  have sB: "add_to_cart \<lparr>product_id = pid, quantity = q\<rparr> callerB idB stA =
      (saved, stA\<lparr>cart_container := Some ?ccB\<rparr>)"
    using add_to_cart_existing[OF cA okA, of "\<lparr>product_id = pid, quantity = q\<rparr>" x xs callerB idB] x
    by simp
  have lB: "lines_for ?ccB DEFAULT_USER pid = [setitem x ''quantity'' (JInt q)]"
    using x xs by (simp add: lines_for_def filter_replace_doc replace_doc_Cons)
  have invB: "cart_inv ?ccB"
    using invA by (simp add: cart_inv_def filter_replace_doc map_replace_doc)
  have "cart_container stB = Some ?ccB"
    using assms(7) sB by auto
  then show ?thesis
    using cA invA x xs lB invB by auto
qed

theorem upsert_keeps_one_line_per_product_witness:
  "cart_container store0 = Some cart0 \<and> fault cart0 = None \<and> wf_container cart0 \<and>
   cart_inv cart0 \<and> fresh_id ''b2'' cart0 \<and>
   (\<exists>ccA ccB l.
      cart_container (snd (add_to_cart \<lparr>product_id = ''7'', quantity = 4\<rparr> (JStr ''barista'') ''b2'' store0))
        = Some ccA \<and> cart_inv ccA \<and> length (lines_for ccA DEFAULT_USER ''7'') = 1 \<and>
      cart_container (snd (add_to_cart \<lparr>product_id = ''7'', quantity = 4\<rparr> (JStr ''barista'') ''c3''
        (snd (add_to_cart \<lparr>product_id = ''7'', quantity = 4\<rparr> (JStr ''barista'') ''b2'' store0))))
        = Some ccB \<and> cart_inv ccB \<and>
      lines_for ccB DEFAULT_USER ''7'' = [l] \<and> getitem l ''quantity'' = Inr (JInt 4))"
proof -
  have h: "cart_container store0 = Some cart0" "fault cart0 = None"
    by (simp_all add: store0_def cart0_def)
  show ?thesis
    using upsert_keeps_one_line_per_product[where st=store0 and cc=cart0 and idA="''b2''"
        and pid="''7''" and q=4 and callerA="JStr ''barista''" and callerB="JStr ''barista''"
        and idB="''c3''",
        OF h wf_cart0 cart_inv_cart0 fresh_cart0 surjective_pairing surjective_pairing]
      h wf_cart0 fresh_cart0 cart_inv_cart0
    by simp
qed

text \<open>
  Claim C7. On a store that answers: when the owner has no line for the product,
  \<^verbatim>\<open>remove_from_cart\<close> answers "Removed successfully" and the store is unchanged; on a
  well-formed cart it answers the same and deletes every line of the owner for the
  product, all other documents staying as they were.
\<close>

theorem remove_absent_is_noop_and_remove_deletes_all:
  assumes "cart_container st = Some cc" and "fault cc = None"
  shows "(lines_for cc DEFAULT_USER pid = [] \<longrightarrow> remove_from_cart pid caller st = (removed, st)) \<and>
    (wf_container cc \<longrightarrow>
       (\<exists>cc'. remove_from_cart pid caller st = (removed, st\<lparr>cart_container := Some cc'\<rparr>) \<and>
          docs cc' = filter (\<lambda>d. \<not> by_user_product DEFAULT_USER pid d) (docs cc) \<and>
          lines_for cc' DEFAULT_USER pid = []))"
proof (intro conjI impI)
  assume "lines_for cc DEFAULT_USER pid = []"
  then show "remove_from_cart pid caller st = (removed, st)"
    using assms store_cart_same[OF assms(1)]
    by (simp add: remove_from_cart_def query_items_def lines_for_def removed_def)
next
  assume wf: "wf_container cc"
  let ?cc = "cc\<lparr>docs := filter (\<lambda>d. \<not> by_user_product DEFAULT_USER pid d) (docs cc)\<rparr>"
  have "delete_each (filter (by_user_product DEFAULT_USER pid) (docs cc)) cc = (None, ?cc)"
    using assms(2) wf by (intro delete_each_query) (simp_all add: by_user_product_def by_user_def)
  then have "remove_from_cart pid caller st = (removed, st\<lparr>cart_container := Some ?cc\<rparr>)"
    using assms by (simp add: remove_from_cart_def query_items_def removed_def)
  moreover have "lines_for ?cc DEFAULT_USER pid = []"
    by (simp add: lines_for_def)
  ultimately show "\<exists>cc'. remove_from_cart pid caller st = (removed, st\<lparr>cart_container := Some cc'\<rparr>) \<and>
          docs cc' = filter (\<lambda>d. \<not> by_user_product DEFAULT_USER pid d) (docs cc) \<and>
          lines_for cc' DEFAULT_USER pid = []"
    by (intro exI[of _ ?cc]) simp
qed

theorem remove_absent_is_noop_and_remove_deletes_all_witness:
  "cart_container store_dup = Some cart_dup \<and> fault cart_dup = None \<and>
   lines_for cart_dup DEFAULT_USER ''9'' = [] \<and>
   remove_from_cart ''9'' (JStr ''barista'') store_dup = (removed, store_dup) \<and>
   wf_container cart_dup \<and>
   length (lines_for cart_dup DEFAULT_USER ''7'') = 2 \<and>
   (\<exists>cc'. remove_from_cart ''7'' (JStr ''barista'') store_dup =
            (removed, store_dup\<lparr>cart_container := Some cc'\<rparr>) \<and>
          docs cc' = [new_line ''a3'' ''8'' 1] \<and>
          lines_for cc' DEFAULT_USER ''7'' = [])"
proof -
  have h: "cart_container store_dup = Some cart_dup" "fault cart_dup = None"
    by (simp_all add: store_dup_def cart_dup_def)
  have l9: "lines_for cart_dup DEFAULT_USER ''9'' = []"
    by (simp add: lines_for_def cart_dup_def by_user_product_def new_line_def)
  have l7: "length (lines_for cart_dup DEFAULT_USER ''7'') = 2"
    by (simp add: lines_for_def cart_dup_def by_user_product_def new_line_def)
  have f7: "filter (\<lambda>d. \<not> by_user_product DEFAULT_USER ''7'' d) (docs cart_dup) = [new_line ''a3'' ''8'' 1]"
    by (simp add: cart_dup_def by_user_product_def new_line_def)
  show ?thesis
    using remove_absent_is_noop_and_remove_deletes_all[OF h, of "''9''" "JStr ''barista''"]
      remove_absent_is_noop_and_remove_deletes_all[OF h, of "''7''" "JStr ''barista''"]
      h l9 l7 f7 wf_cart_dup
    by simp
qed

text \<open>
  Claim C1. On a store that answers, with a well-formed cart and a fresh order id: when
  the owner's lines are, in store order, product \<open>pA\<close> with quantity 2 and product
  \<open>pB\<close> with quantity 1, \<^verbatim>\<open>create_order\<close> returns and stores as the last document of
  the order container an order whose items are these two pairs in this order and whose
  status is "confirmed"; afterwards the owner has no cart line, and the lines of other
  users are as before.
\<close>

theorem place_order_snapshots_and_empties_cart:
  assumes "orders_container st = Some oc" and "cart_container st = Some cc"
    and "fault oc = None" and "fault cc = None" and "wf_container cc"
    and "fresh_id i oc"
    and "lines_of cc DEFAULT_USER = [lineA, lineB]"
    and "getitem lineA ''product_id'' = Inr (JStr pA)" and "getitem lineA ''quantity'' = Inr (JInt 2)"
    and "getitem lineB ''product_id'' = Inr (JStr pB)" and "getitem lineB ''quantity'' = Inr (JInt 1)"
  shows "\<exists>cc' oc'. create_order caller i t st =
       (JObj [(''id'', JStr i), (''user_id'', JStr DEFAULT_USER),
              (''items'', JList [JObj [(''product_id'', JStr pA), (''quantity'', JInt 2)],
                                 JObj [(''product_id'', JStr pB), (''quantity'', JInt 1)]]),
              (''status'', JStr ''confirmed''), (''created_at'', JStr t)],
        st\<lparr>cart_container := Some cc', orders_container := Some oc'\<rparr>) \<and>
      docs oc' = docs oc @
        [[(''id'', JStr i), (''user_id'', JStr DEFAULT_USER),
          (''items'', JList [JObj [(''product_id'', JStr pA), (''quantity'', JInt 2)],
                             JObj [(''product_id'', JStr pB), (''quantity'', JInt 1)]]),
          (''status'', JStr ''confirmed''), (''created_at'', JStr t)]] \<and>
      lines_of cc' DEFAULT_USER = [] \<and>
      docs cc' = filter (\<lambda>d. \<not> by_user DEFAULT_USER d) (docs cc)"
proof -
  let ?items = "[JObj [(''product_id'', JStr pA), (''quantity'', JInt 2)],
                 JObj [(''product_id'', JStr pB), (''quantity'', JInt 1)]]"
  have "order_items (lines_of cc DEFAULT_USER) = Inr ?items"
    using assms(7-11) by simp
  from create_order_ok[OF assms(1-6) this, of caller t]
  show ?thesis
    by (intro exI[of _ "cc\<lparr>docs := filter (\<lambda>d. \<not> by_user DEFAULT_USER d) (docs cc)\<rparr>"]
              exI[of _ "oc\<lparr>docs := docs oc @ [order_doc i ?items t]\<rparr>"])
       (simp add: order_doc_def lines_of_def)
qed

theorem place_order_snapshots_and_empties_cart_witness:
  "orders_container store_two = Some orders0 \<and> cart_container store_two = Some cart_two \<and>
   fault orders0 = None \<and> fault cart_two = None \<and> wf_container cart_two \<and>
   fresh_id ''o1'' orders0 \<and>
   lines_of cart_two DEFAULT_USER = [new_line ''a1'' ''3'' 2, new_line ''a2'' ''5'' 1] \<and>
   (\<exists>cc' oc'. create_order (JStr ''barista'') ''o1'' ''2024-05-01T10:00:00'' store_two =
       (JObj [(''id'', JStr ''o1''), (''user_id'', JStr DEFAULT_USER),
              (''items'', JList [JObj [(''product_id'', JStr ''3''), (''quantity'', JInt 2)],
                                 JObj [(''product_id'', JStr ''5''), (''quantity'', JInt 1)]]),
              (''status'', JStr ''confirmed''), (''created_at'', JStr ''2024-05-01T10:00:00'')],
        store_two\<lparr>cart_container := Some cc', orders_container := Some oc'\<rparr>) \<and>
      docs oc' =
        [[(''id'', JStr ''o1''), (''user_id'', JStr DEFAULT_USER),
          (''items'', JList [JObj [(''product_id'', JStr ''3''), (''quantity'', JInt 2)],
                             JObj [(''product_id'', JStr ''5''), (''quantity'', JInt 1)]]),
          (''status'', JStr ''confirmed''), (''created_at'', JStr ''2024-05-01T10:00:00'')]] \<and>
      lines_of cc' DEFAULT_USER = [] \<and>
      docs cc' = [guest_line])"
proof -
  have h: "orders_container store_two = Some orders0" "cart_container store_two = Some cart_two"
    "fault orders0 = None" "fault cart_two = None"
    by (simp_all add: store_two_def cart_two_def orders0_def)
  have g: "getitem (new_line ''a1'' ''3'' 2) ''product_id'' = Inr (JStr ''3'')"
    "getitem (new_line ''a1'' ''3'' 2) ''quantity'' = Inr (JInt 2)"
    "getitem (new_line ''a2'' ''5'' 1) ''product_id'' = Inr (JStr ''5'')"
    "getitem (new_line ''a2'' ''5'' 1) ''quantity'' = Inr (JInt 1)"
    by (simp_all add: getitem_def new_line_def)
  have f: "filter (\<lambda>d. \<not> by_user DEFAULT_USER d) (docs cart_two) = [guest_line]"
    by (simp add: cart_two_def by_user_def new_line_def guest_line_def DEFAULT_USER_def)
  have o: "docs orders0 = []" by (simp add: orders0_def)
  show ?thesis
    using place_order_snapshots_and_empties_cart[OF h wf_cart_two fresh_orders0[of "''o1''"]
        lines_of_cart_two g, where caller="JStr ''barista''" and t="''2024-05-01T10:00:00''"]
      h wf_cart_two fresh_orders0[of "''o1''"] lines_of_cart_two f o
    by simp
qed

text \<open>
  Claim C6. On a store that answers and with a fresh order id: when the owner has no
  cart line, \<^verbatim>\<open>create_order\<close> still returns and stores an order, with an empty item
  list and status "confirmed"; the cart is unchanged.
\<close>

theorem place_order_on_empty_cart:
  assumes "orders_container st = Some oc" and "cart_container st = Some cc"
    and "fault oc = None" and "fault cc = None"
    and "fresh_id i oc"
    and "lines_of cc DEFAULT_USER = []"
  shows "create_order caller i t st =
       (JObj [(''id'', JStr i), (''user_id'', JStr DEFAULT_USER), (''items'', JList []),
              (''status'', JStr ''confirmed''), (''created_at'', JStr t)],
        st\<lparr>orders_container := Some (oc\<lparr>docs := docs oc @
          [[(''id'', JStr i), (''user_id'', JStr DEFAULT_USER), (''items'', JList []),
            (''status'', JStr ''confirmed''), (''created_at'', JStr t)]]\<rparr>)\<rparr>)"
proof -
  let ?o = "order_doc i [] t"
  have a: "has_string_id ?o" by (simp add: has_string_id_def doc_id_def order_doc_def)
  have b: "same_key ?o d' \<longleftrightarrow> item_at (JStr i) DEFAULT_USER d'" for d'
    by (auto simp: same_key_def item_at_def doc_id_def partition_key_def order_doc_def)
  have cr: "create_item ?o oc = Inr (oc\<lparr>docs := docs oc @ [?o]\<rparr>)"
    using assms(3,5) a b by (simp add: create_item_def fresh_id_def list_ex_iff)
  have "st\<lparr>cart_container := Some cc, orders_container := Some (oc\<lparr>docs := docs oc @ [?o]\<rparr>)\<rparr> =
        st\<lparr>orders_container := Some (oc\<lparr>docs := docs oc @ [?o]\<rparr>)\<rparr>"
    using assms(2) by (cases st) simp
  then show ?thesis
    using assms(1,2,4,6) cr
    by (simp add: create_order_def query_items_def lines_of_def order_doc_def Let_def)
qed

theorem place_order_on_empty_cart_witness:
  "orders_container store_guest = Some orders0 \<and> cart_container store_guest = Some cart_guest \<and>
   fault orders0 = None \<and> fault cart_guest = None \<and> fresh_id ''o1'' orders0 \<and>
   lines_of cart_guest DEFAULT_USER = [] \<and>
   create_order (JStr ''barista'') ''o1'' ''2024-05-01T10:00:00'' store_guest =
       (JObj [(''id'', JStr ''o1''), (''user_id'', JStr DEFAULT_USER), (''items'', JList []),
              (''status'', JStr ''confirmed''), (''created_at'', JStr ''2024-05-01T10:00:00'')],
        store_guest\<lparr>orders_container := Some \<lparr>docs =
          [[(''id'', JStr ''o1''), (''user_id'', JStr DEFAULT_USER), (''items'', JList []),
            (''status'', JStr ''confirmed''), (''created_at'', JStr ''2024-05-01T10:00:00'')]],
          fault = None\<rparr>\<rparr>)"
proof -
  have h: "orders_container store_guest = Some orders0" "cart_container store_guest = Some cart_guest"
    "fault orders0 = None" "fault cart_guest = None"
    by (simp_all add: store_guest_def cart_guest_def orders0_def)
  have l: "lines_of cart_guest DEFAULT_USER = []"
    by (simp add: lines_of_def cart_guest_def by_user_def guest_line_def DEFAULT_USER_def)
  have o: "orders0\<lparr>docs := docs orders0 @ [x]\<rparr> = \<lparr>docs = [x], fault = None\<rparr>" for x
    by (simp add: orders0_def)
  show ?thesis
    using place_order_on_empty_cart[OF h fresh_orders0[of "''o1''"] l,
        where caller="JStr ''barista''" and t="''2024-05-01T10:00:00''"]
      h fresh_orders0[of "''o1''"] l o
    by simp
qed

text \<open>
  Claim C5. With both containers configured: a list that \<^verbatim>\<open>get_cart\<close> returns holds
  only lines made from a cart line of the owner and an existing product whose id is the
  line's \<^verbatim>\<open>product_id\<close>, each with the product's id, name and price, the cart
  line's quantity and the product's image and category. When the store answers, the
  answer is the same as for the cart without the lines whose product does not exist;
  and when the owner's lines are readable, the answer is a list, not an error, with one
  line per cart line whose product exists.
\<close>

theorem get_cart_lists_only_existing_products:
  assumes "cart_container st = Some cc" and "products_container st = Some pc"
  shows "(\<forall>ls. get_cart caller st = JList ls \<longrightarrow>
            list_all (\<lambda>l. list_ex (\<lambda>item. list_ex (\<lambda>p. carries item p l) (docs pc))
                         (lines_of cc DEFAULT_USER)) ls) \<and>
         (fault cc = None \<and> fault pc = None \<longrightarrow>
            get_cart caller (st\<lparr>cart_container :=
                Some (cc\<lparr>docs := filter (\<lambda>d. \<not> dangling pc d) (docs cc)\<rparr>)\<rparr>) =
            get_cart caller st) \<and>
         (fault cc = None \<and> fault pc = None \<and>
          list_all (readable_line pc) (lines_of cc DEFAULT_USER) \<longrightarrow>
            (\<exists>ls. get_cart caller st = JList ls \<and>
               length ls = length (filter (\<lambda>d. \<not> dangling pc d) (lines_of cc DEFAULT_USER))))"
proof (intro conjI allI impI)
  fix ls
  assume r: "get_cart caller st = JList ls"
  then have "enrich_loop pc (lines_of cc DEFAULT_USER) [] = Inr ls"
    using assms
    by (auto simp: get_cart_def query_items_def lines_of_def error_body_def
        split: option.splits sum.splits)
  from enrich_loop_carries[OF this]
  show "list_all (\<lambda>l. list_ex (\<lambda>item. list_ex (\<lambda>p. carries item p l) (docs pc))
                         (lines_of cc DEFAULT_USER)) ls"
    by simp
next
  assume ok: "fault cc = None \<and> fault pc = None"
  let ?cc = "cc\<lparr>docs := filter (\<lambda>d. \<not> dangling pc d) (docs cc)\<rparr>"
  have "enrich_loop pc (lines_of ?cc DEFAULT_USER) [] = enrich_loop pc (lines_of cc DEFAULT_USER) []"
    using ok by (simp add: lines_of_without_dangling enrich_loop_skips_dangling)
  then show "get_cart caller (st\<lparr>cart_container := Some ?cc\<rparr>) = get_cart caller st"
    using assms ok by (simp add: get_cart_def query_items_def lines_of_def)
next
  assume ok: "fault cc = None \<and> fault pc = None \<and>
          list_all (readable_line pc) (lines_of cc DEFAULT_USER)"
  then obtain new where "enrich_loop pc (lines_of cc DEFAULT_USER) [] = Inr ([] @ new)"
    "length new = length (filter (\<lambda>d. \<not> dangling pc d) (lines_of cc DEFAULT_USER))"
    using enrich_loop_total[of pc "lines_of cc DEFAULT_USER" "[]"] by blast
  then show "\<exists>ls. get_cart caller st = JList ls \<and>
               length ls = length (filter (\<lambda>d. \<not> dangling pc d) (lines_of cc DEFAULT_USER))"
    using assms ok by (simp add: get_cart_def query_items_def lines_of_def)
qed

theorem get_cart_lists_only_existing_products_witness:
  "cart_container store_cafe = Some cart_cafe \<and> products_container store_cafe = Some products_cafe \<and>
   fault cart_cafe = None \<and> fault products_cafe = None \<and>
   list_all (readable_line products_cafe) (lines_of cart_cafe DEFAULT_USER) \<and>
   length (lines_of cart_cafe DEFAULT_USER) = 3 \<and>
   get_cart (JStr ''barista'') store_cafe = JList enriched_cafe \<and>
   length enriched_cafe = 2 \<and>
   list_all (\<lambda>l. list_ex (\<lambda>item. list_ex (\<lambda>p. carries item p l) (docs products_cafe))
                (lines_of cart_cafe DEFAULT_USER)) enriched_cafe \<and>
   get_cart (JStr ''barista'') (store_cafe\<lparr>cart_container :=
       Some (cart_cafe\<lparr>docs := filter (\<lambda>d. \<not> dangling products_cafe d) (docs cart_cafe)\<rparr>)\<rparr>) =
     JList enriched_cafe \<and>
   length (filter (\<lambda>d. \<not> dangling products_cafe d) (lines_of cart_cafe DEFAULT_USER)) = 2"
proof -
  have h: "cart_container store_cafe = Some cart_cafe" "products_container store_cafe = Some products_cafe"
    by (simp_all add: store_cafe_def)
  have f: "fault cart_cafe = None" "fault products_cafe = None"
    by (simp_all add: cart_cafe_def products_cafe_def)
  have r: "list_all (readable_line products_cafe) (lines_of cart_cafe DEFAULT_USER)"
    by (simp add: lines_of_cart_cafe readable_line_def new_line_def products_cafe_def by_id_def)
  have n: "length enriched_cafe = 2" by (simp add: enriched_cafe_def)
  show ?thesis
    using get_cart_lists_only_existing_products[OF h, of "JStr ''barista''"]
      h f r n get_cart_store_cafe[of "JStr ''barista''"] lines_of_cart_cafe
    by simp
qed

text \<open>
  Claim C10. For a caller the auth gate accepts, with both containers configured: when
  the cart query raises, or the cart answers and the product query for the owner's
  first line raises, \<^verbatim>\<open>get_cart\<close> answers with status 200 and the object
  \<^verbatim>\<open>{"error": str(e)}\<close>, not a list; the catalog reads on a product container that
  raises answer the empty list.
\<close>

theorem get_cart_store_error_is_error_object:
  assumes "cart_container st = Some cc" and "products_container st = Some pc"
    and "get_current_user key authorization now = Inr caller"
  shows "(fault cc = Some e \<longrightarrow>
            depends_current_user key authorization now (\<lambda>u. get_cart u st) =
              Inr (JObj [(''error'', JStr (str_exn e))])) \<and>
         (fault cc = None \<and> fault pc = Some e \<and>
          lines_of cc DEFAULT_USER = item # items \<and> map_of item ''product_id'' = Some pid \<longrightarrow>
            depends_current_user key authorization now (\<lambda>u. get_cart u st) =
              Inr (JObj [(''error'', JStr (str_exn e))])) \<and>
         (fault pc = Some e \<longrightarrow>
            list_products category st = JList [] \<and> search_products q st = JList [] \<and>
            get_categories st = JList [])"
  using assms
  by (simp add: depends_current_user_def get_cart_def query_items_def error_body_def
      lines_of_def getitem_def list_products_def search_products_def get_categories_def
      split: option.splits)

theorem get_cart_store_error_is_error_object_witness:
  "cart_container store_down = Some cart_down \<and> products_container store_down = Some products_down \<and>
   get_current_user ''k'' (Some (BearerToken barista_token)) 1000 = Inr (JStr ''barista'') \<and>
   fault cart_down = Some (OtherException ''connection refused'') \<and>
   depends_current_user ''k'' (Some (BearerToken barista_token)) 1000 (\<lambda>u. get_cart u store_down) =
     Inr (JObj [(''error'', JStr ''connection refused'')]) \<and>
   fault products_down = Some (CosmosHttpResponseError 503 ''Service Unavailable'') \<and>
   list_products None store_down = JList [] \<and> search_products ''latte'' store_down = JList [] \<and>
   get_categories store_down = JList [] \<and>
   cart_container store_products_down = Some cart0 \<and> fault cart0 = None \<and>
   lines_of cart0 DEFAULT_USER = [new_line ''a1'' ''7'' 1] \<and>
   depends_current_user ''k'' (Some (BearerToken barista_token)) 1000 (\<lambda>u. get_cart u store_products_down) =
     Inr (JObj [(''error'', JStr ''Service Unavailable'')])"
proof -
  have h: "cart_container store_down = Some cart_down" "products_container store_down = Some products_down"
    by (simp_all add: store_down_def)
  have h': "cart_container store_products_down = Some cart0"
    "products_container store_products_down = Some products_down"
    by (simp_all add: store_products_down_def)
  have f: "fault cart_down = Some (OtherException ''connection refused'')"
    "fault products_down = Some (CosmosHttpResponseError 503 ''Service Unavailable'')"
    "fault cart0 = None"
    by (simp_all add: cart_down_def products_down_def cart0_def)
  have l: "lines_of cart0 DEFAULT_USER = [new_line ''a1'' ''7'' 1]"
    by (simp add: lines_of_def cart0_def by_user_def new_line_def)
  have p: "map_of (new_line ''a1'' ''7'' 1) ''product_id'' = Some (JStr ''7'')"
    by (simp add: new_line_def)
  show ?thesis
    using get_cart_store_error_is_error_object[OF h barista_token_accepted,
        where e="OtherException ''connection refused''" and category=None and q="''latte''"]
      get_cart_store_error_is_error_object[OF h barista_token_accepted,
        where e="CosmosHttpResponseError 503 ''Service Unavailable''" and category=None and q="''latte''"]
      get_cart_store_error_is_error_object[OF h' barista_token_accepted,
        where e="CosmosHttpResponseError 503 ''Service Unavailable''"
          and item="new_line ''a1'' ''7'' 1" and items="[]" and pid="JStr ''7''"]
      h h' f l p barista_token_accepted
    by simp
qed

text \<open>
  A product container that is configured and fails the query with the SDK's
  \<^verbatim>\<open>CosmosHttpResponseError\<close> (here a 503 of the service): \<^verbatim>\<open>get_product\<close> answers
  404 "Product not found", not 503.
\<close>

theorem get_product_not_found_on_store_error_counterexample:
  "products_container store_down = Some products_down \<and>
   fault products_down = Some (CosmosHttpResponseError 503 ''Service Unavailable'') \<and>
   get_product ''1'' store_down = Inl (HTTPException 404 ''Product not found'')"
  by (simp add: store_down_def products_down_def get_product_def query_items_def)

text \<open>
  Claim C4, as amended. \<^verbatim>\<open>get_product\<close> answers 503 when the product container is not
  configured, and 404 when the store answers and no product has the id, and also when
  the query raises a \<^verbatim>\<open>CosmosHttpResponseError\<close>. \<^verbatim>\<open>list_products\<close>,
  \<^verbatim>\<open>search_products\<close> and \<^verbatim>\<open>get_categories\<close> answer the empty list when the
  container is not configured and when its query raises.
\<close>

theorem get_product_errors_and_catalog_degradation:
  "(products_container st = None \<longrightarrow>
      get_product pid st = Inl (HTTPException 503 ''Database not available'')) \<and>
   (products_container st = Some pc \<and> fault pc = None \<and> \<not> list_ex (by_id (JStr pid)) (docs pc) \<longrightarrow>
      get_product pid st = Inl (HTTPException 404 ''Product not found'')) \<and>
   (products_container st = Some pc \<and> fault pc = Some (CosmosHttpResponseError code msg) \<longrightarrow>
      get_product pid st = Inl (HTTPException 404 ''Product not found'')) \<and>
   (products_container st = None \<or> (products_container st = Some pc \<and> fault pc = Some e) \<longrightarrow>
      list_products category st = JList [] \<and> search_products q st = JList [] \<and>
      get_categories st = JList [])"
proof -
  have "filter (by_id (JStr pid)) (docs pc) = []" if "\<not> list_ex (by_id (JStr pid)) (docs pc)"
    using that by (simp add: list_ex_iff filter_empty_conv)
  then show ?thesis
    by (auto simp: get_product_def query_items_def list_products_def search_products_def
        get_categories_def split: option.splits)
qed

theorem get_product_errors_and_catalog_degradation_witness:
  "products_container store_unconfigured = None \<and>
   get_product ''1'' store_unconfigured = Inl (HTTPException 503 ''Database not available'') \<and>
   list_products (Some ''Coffee'') store_unconfigured = JList [] \<and>
   search_products ''latte'' store_unconfigured = JList [] \<and>
   get_categories store_unconfigured = JList [] \<and>
   products_container store_cafe = Some products_cafe \<and> fault products_cafe = None \<and>
   \<not> list_ex (by_id (JStr ''42'')) (docs products_cafe) \<and>
   get_product ''42'' store_cafe = Inl (HTTPException 404 ''Product not found'') \<and>
   products_container store_down = Some products_down \<and>
   fault products_down = Some (CosmosHttpResponseError 503 ''Service Unavailable'') \<and>
   get_product ''1'' store_down = Inl (HTTPException 404 ''Product not found'') \<and>
   list_products (Some ''Coffee'') store_down = JList [] \<and>
   search_products ''latte'' store_down = JList [] \<and>
   get_categories store_down = JList []"
proof -
  have a: "products_container store_unconfigured = None"
    by (simp add: store_unconfigured_def)
  have b: "products_container store_cafe = Some products_cafe" "fault products_cafe = None"
    "\<not> list_ex (by_id (JStr ''42'')) (docs products_cafe)"
    by (simp_all add: store_cafe_def products_cafe_def by_id_def)
  have c: "products_container store_down = Some products_down"
    "fault products_down = Some (CosmosHttpResponseError 503 ''Service Unavailable'')"
    by (simp_all add: store_down_def products_down_def)
  show ?thesis
    using get_product_errors_and_catalog_degradation[where st=store_unconfigured and pid="''1''"
        and category="Some ''Coffee''" and q="''latte''"]
      get_product_errors_and_catalog_degradation[where st=store_cafe and pc=products_cafe
        and pid="''42''"]
      get_product_errors_and_catalog_degradation[where st=store_down and pc=products_down
        and pid="''1''" and code=503 and msg="''Service Unavailable''"
        and e="CosmosHttpResponseError 503 ''Service Unavailable''"
        and category="Some ''Coffee''" and q="''latte''"]
      a b c
    by simp
qed

text \<open>
  Claim C8. Logging in with the demo username and password returns a bearer token whose
  \<^verbatim>\<open>sub\<close> claim is the submitted username and whose \<^verbatim>\<open>exp\<close> claim is the time of
  the call plus 60 minutes; the auth gate refuses this token with status 401 at any time
  after the expiry, and accepts it with the username as identity up to the expiry. Any
  other username or password is refused with 401 "Invalid credentials".
\<close>

theorem login_issues_expiring_subject_token:
  "(username body = DEMO_USERNAME \<and> password body = DEMO_PASSWORD \<longrightarrow>
      (\<exists>tok. auth_login key body now = Inr \<lparr>access_token = tok, token_type = ''bearer''\<rparr> \<and>
         map_of (claims tok) ''sub'' = Some (JStr (username body)) \<and>
         map_of (claims tok) ''exp'' = Some (JInt (now + 60 * 60)) \<and>
         (\<forall>later. now + 60 * 60 < later \<longrightarrow>
            get_current_user key (Some (BearerToken tok)) later =
              Inl (HTTPException 401 ''Invalid or expired token'')) \<and>
         (\<forall>before. before \<le> now + 60 * 60 \<longrightarrow>
            get_current_user key (Some (BearerToken tok)) before = Inr (JStr (username body))))) \<and>
   (username body \<noteq> DEMO_USERNAME \<or> password body \<noteq> DEMO_PASSWORD \<longrightarrow>
      auth_login key body now = Inl (HTTPException 401 ''Invalid credentials''))"
  by (auto simp: auth_login_def create_access_token_def jwt_encode_def Let_def
      ACCESS_TOKEN_EXPIRE_MINUTES_def get_current_user_def jwt_decode_def JWT_ALGORITHM_def)

theorem login_issues_expiring_subject_token_witness:
  "username demo_login = DEMO_USERNAME \<and> password demo_login = DEMO_PASSWORD \<and>
   (\<exists>tok. auth_login ''k'' demo_login 1000 = Inr \<lparr>access_token = tok, token_type = ''bearer''\<rparr> \<and>
      map_of (claims tok) ''sub'' = Some (JStr ''barista'') \<and>
      map_of (claims tok) ''exp'' = Some (JInt 4600) \<and>
      get_current_user ''k'' (Some (BearerToken tok)) 4601 =
        Inl (HTTPException 401 ''Invalid or expired token'') \<and>
      get_current_user ''k'' (Some (BearerToken tok)) 4600 = Inr (JStr ''barista'')) \<and>
   password wrong_login \<noteq> DEMO_PASSWORD \<and>
   auth_login ''k'' wrong_login 1000 = Inl (HTTPException 401 ''Invalid credentials'')"
proof -
  have d: "username demo_login = DEMO_USERNAME" "password demo_login = DEMO_PASSWORD"
    "username demo_login = ''barista''"
    by (simp_all add: demo_login_def DEMO_USERNAME_def DEMO_PASSWORD_def)
  have w: "password wrong_login \<noteq> DEMO_PASSWORD"
    by (simp add: wrong_login_def DEMO_PASSWORD_def)
  from login_issues_expiring_subject_token[of demo_login "''k''" 1000] d
  obtain tok where t: "auth_login ''k'' demo_login 1000 = Inr \<lparr>access_token = tok, token_type = ''bearer''\<rparr>"
    "map_of (claims tok) ''sub'' = Some (JStr ''barista'')"
    "map_of (claims tok) ''exp'' = Some (JInt 4600)"
    "\<forall>later. 4600 < later \<longrightarrow>
        get_current_user ''k'' (Some (BearerToken tok)) later =
          Inl (HTTPException 401 ''Invalid or expired token'')"
    "\<forall>before. before \<le> 4600 \<longrightarrow>
        get_current_user ''k'' (Some (BearerToken tok)) before = Inr (JStr ''barista'')"
    by auto
  have "get_current_user ''k'' (Some (BearerToken tok)) 4601 =
        Inl (HTTPException 401 ''Invalid or expired token'')"
    "get_current_user ''k'' (Some (BearerToken tok)) 4600 = Inr (JStr ''barista'')"
    using t(4,5) by simp_all
  then show ?thesis
    using t(1-3) d w login_issues_expiring_subject_token[of wrong_login "''k''" 1000]
    by auto
qed

text \<open>
  Claim C9. For any two headers the auth gate accepts, with whatever identities, and any
  store: \<^verbatim>\<open>get_cart\<close>, \<^verbatim>\<open>add_to_cart\<close>, \<^verbatim>\<open>remove_from_cart\<close>,
  \<^verbatim>\<open>create_order\<close> and \<^verbatim>\<open>get_orders\<close> give the same response and the same store
  for both callers, at the endpoint and in the handler. Each of them works on the rows
  whose \<^verbatim>\<open>user_id\<close> is \<^verbatim>\<open>cafe_guest\<close>, on a store that answers: \<^verbatim>\<open>get_cart\<close>
  enriches exactly these cart rows and \<^verbatim>\<open>get_orders\<close> returns exactly these order
  rows; \<^verbatim>\<open>add_to_cart\<close> overwrites or creates a row of \<^verbatim>\<open>cafe_guest\<close> and leaves
  the rows of every other user as they were; \<^verbatim>\<open>remove_from_cart\<close> deletes exactly the
  rows of \<^verbatim>\<open>cafe_guest\<close> for the product; \<^verbatim>\<open>create_order\<close> snapshots the cart rows
  of \<^verbatim>\<open>cafe_guest\<close> into an order of \<^verbatim>\<open>cafe_guest\<close> and deletes exactly these
  cart rows.
\<close>

theorem cart_and_order_operations_ignore_caller:
  assumes "get_current_user key headerA nowA = Inr callerA"
    and "get_current_user key headerB nowB = Inr callerB"
  shows "DEFAULT_USER = ''cafe_guest'' \<and>
    depends_current_user key headerA nowA (\<lambda>u. get_cart u st) =
      depends_current_user key headerB nowB (\<lambda>u. get_cart u st) \<and>
    depends_current_user key headerA nowA (\<lambda>u. add_to_cart item u uuid4 st) =
      depends_current_user key headerB nowB (\<lambda>u. add_to_cart item u uuid4 st) \<and>
    depends_current_user key headerA nowA (\<lambda>u. remove_from_cart pid u st) =
      depends_current_user key headerB nowB (\<lambda>u. remove_from_cart pid u st) \<and>
    depends_current_user key headerA nowA (\<lambda>u. create_order u uuid4 utcnow st) =
      depends_current_user key headerB nowB (\<lambda>u. create_order u uuid4 utcnow st) \<and>
    depends_current_user key headerA nowA (\<lambda>u. get_orders u st) =
      depends_current_user key headerB nowB (\<lambda>u. get_orders u st) \<and>
    get_cart callerA st = get_cart callerB st \<and>
    add_to_cart item callerA uuid4 st = add_to_cart item callerB uuid4 st \<and>
    remove_from_cart pid callerA st = remove_from_cart pid callerB st \<and>
    create_order callerA uuid4 utcnow st = create_order callerB uuid4 utcnow st \<and>
    get_orders callerA st = get_orders callerB st \<and>
    (cart_container st = Some cc \<and> products_container st = Some pc \<and> fault cc = None \<longrightarrow>
       get_cart callerA st =
         (case enrich_loop pc (filter (by_user ''cafe_guest'') (docs cc)) [] of
            Inl e \<Rightarrow> error_body e
          | Inr enriched_cart \<Rightarrow> JList enriched_cart)) \<and>
    (orders_container st = Some oc \<and> fault oc = None \<longrightarrow>
       get_orders callerA st = JList (map JObj (filter (by_user ''cafe_guest'') (docs oc)))) \<and>
    (cart_container st = Some cc \<and> fault cc = None \<and> wf_container cc \<and> fresh_id uuid4 cc \<longrightarrow>
       (\<exists>cc'. add_to_cart item callerA uuid4 st = (saved, st\<lparr>cart_container := Some cc'\<rparr>) \<and>
          lines_for cc' ''cafe_guest'' (product_id item) =
            (case lines_for cc ''cafe_guest'' (product_id item) of
               [] \<Rightarrow> [[(''id'', JStr uuid4), (''user_id'', JStr ''cafe_guest''),
                       (''product_id'', JStr (product_id item)),
                       (''quantity'', JInt (quantity item))]]
             | x # xs \<Rightarrow> setitem x ''quantity'' (JInt (quantity item)) # xs) \<and>
          filter (\<lambda>d. \<not> by_user ''cafe_guest'' d) (docs cc') =
            filter (\<lambda>d. \<not> by_user ''cafe_guest'' d) (docs cc))) \<and>
    (cart_container st = Some cc \<and> fault cc = None \<and> wf_container cc \<longrightarrow>
       remove_from_cart pid callerA st =
         (removed, st\<lparr>cart_container :=
            Some (cc\<lparr>docs := filter (\<lambda>d. \<not> by_user_product ''cafe_guest'' pid d) (docs cc)\<rparr>)\<rparr>)) \<and>
    (orders_container st = Some oc \<and> cart_container st = Some cc \<and>
     fault oc = None \<and> fault cc = None \<and> wf_container cc \<and> fresh_id uuid4 oc \<and>
     order_items (filter (by_user ''cafe_guest'') (docs cc)) = Inr snapshot \<longrightarrow>
       create_order callerA uuid4 utcnow st =
         (JObj [(''id'', JStr uuid4), (''user_id'', JStr ''cafe_guest''), (''items'', JList snapshot),
                (''status'', JStr ''confirmed''), (''created_at'', JStr utcnow)],
          st\<lparr>cart_container :=
               Some (cc\<lparr>docs := filter (\<lambda>d. \<not> by_user ''cafe_guest'' d) (docs cc)\<rparr>),
             orders_container :=
               Some (oc\<lparr>docs := docs oc @
                 [[(''id'', JStr uuid4), (''user_id'', JStr ''cafe_guest''), (''items'', JList snapshot),
                   (''status'', JStr ''confirmed''), (''created_at'', JStr utcnow)]]\<rparr>)\<rparr>))"
proof -
  have same: "depends_current_user key headerA nowA (\<lambda>u. get_cart u st) =
      depends_current_user key headerB nowB (\<lambda>u. get_cart u st) \<and>
    depends_current_user key headerA nowA (\<lambda>u. add_to_cart item u uuid4 st) =
      depends_current_user key headerB nowB (\<lambda>u. add_to_cart item u uuid4 st) \<and>
    depends_current_user key headerA nowA (\<lambda>u. remove_from_cart pid u st) =
      depends_current_user key headerB nowB (\<lambda>u. remove_from_cart pid u st) \<and>
    depends_current_user key headerA nowA (\<lambda>u. create_order u uuid4 utcnow st) =
      depends_current_user key headerB nowB (\<lambda>u. create_order u uuid4 utcnow st) \<and>
    depends_current_user key headerA nowA (\<lambda>u. get_orders u st) =
      depends_current_user key headerB nowB (\<lambda>u. get_orders u st) \<and>
    get_cart callerA st = get_cart callerB st \<and>
    add_to_cart item callerA uuid4 st = add_to_cart item callerB uuid4 st \<and>
    remove_from_cart pid callerA st = remove_from_cart pid callerB st \<and>
    create_order callerA uuid4 utcnow st = create_order callerB uuid4 utcnow st \<and>
    get_orders callerA st = get_orders callerB st"
    using assms
    by (simp add: depends_current_user_def get_cart_def add_to_cart_def remove_from_cart_def
        create_order_def get_orders_def)
  have gc: "cart_container st = Some cc \<and> products_container st = Some pc \<and> fault cc = None \<longrightarrow>
       get_cart callerA st =
         (case enrich_loop pc (filter (by_user ''cafe_guest'') (docs cc)) [] of
            Inl e \<Rightarrow> error_body e
          | Inr enriched_cart \<Rightarrow> JList enriched_cart)"
    by (simp add: get_cart_def query_items_def DEFAULT_USER_def)
  have go: "orders_container st = Some oc \<and> fault oc = None \<longrightarrow>
       get_orders callerA st = JList (map JObj (filter (by_user ''cafe_guest'') (docs oc)))"
    by (simp add: get_orders_def query_items_def DEFAULT_USER_def)
  have ac: "cart_container st = Some cc \<and> fault cc = None \<and> wf_container cc \<and> fresh_id uuid4 cc \<longrightarrow>
       (\<exists>cc'. add_to_cart item callerA uuid4 st = (saved, st\<lparr>cart_container := Some cc'\<rparr>) \<and>
          lines_for cc' ''cafe_guest'' (product_id item) =
            (case lines_for cc ''cafe_guest'' (product_id item) of
               [] \<Rightarrow> [[(''id'', JStr uuid4), (''user_id'', JStr ''cafe_guest''),
                       (''product_id'', JStr (product_id item)),
                       (''quantity'', JInt (quantity item))]]
             | x # xs \<Rightarrow> setitem x ''quantity'' (JInt (quantity item)) # xs) \<and>
          filter (\<lambda>d. \<not> by_user ''cafe_guest'' d) (docs cc') =
            filter (\<lambda>d. \<not> by_user ''cafe_guest'' d) (docs cc))"
  proof
    assume h: "cart_container st = Some cc \<and> fault cc = None \<and> wf_container cc \<and> fresh_id uuid4 cc"
    then show "\<exists>cc'. add_to_cart item callerA uuid4 st = (saved, st\<lparr>cart_container := Some cc'\<rparr>) \<and>
          lines_for cc' ''cafe_guest'' (product_id item) =
            (case lines_for cc ''cafe_guest'' (product_id item) of
               [] \<Rightarrow> [[(''id'', JStr uuid4), (''user_id'', JStr ''cafe_guest''),
                       (''product_id'', JStr (product_id item)),
                       (''quantity'', JInt (quantity item))]]
             | x # xs \<Rightarrow> setitem x ''quantity'' (JInt (quantity item)) # xs) \<and>
          filter (\<lambda>d. \<not> by_user ''cafe_guest'' d) (docs cc') =
            filter (\<lambda>d. \<not> by_user ''cafe_guest'' d) (docs cc)"
      using add_to_cart_rows[of st cc uuid4 item callerA]
      by (simp add: new_line_def DEFAULT_USER_def cong: list.case_cong)
  qed
  have rc: "cart_container st = Some cc \<and> fault cc = None \<and> wf_container cc \<longrightarrow>
       remove_from_cart pid callerA st =
         (removed, st\<lparr>cart_container :=
            Some (cc\<lparr>docs := filter (\<lambda>d. \<not> by_user_product ''cafe_guest'' pid d) (docs cc)\<rparr>)\<rparr>)"
    using remove_from_cart_rows[of st cc pid callerA] by (simp add: DEFAULT_USER_def)
  have co: "orders_container st = Some oc \<and> cart_container st = Some cc \<and>
     fault oc = None \<and> fault cc = None \<and> wf_container cc \<and> fresh_id uuid4 oc \<and>
     order_items (filter (by_user ''cafe_guest'') (docs cc)) = Inr snapshot \<longrightarrow>
       create_order callerA uuid4 utcnow st =
         (JObj [(''id'', JStr uuid4), (''user_id'', JStr ''cafe_guest''), (''items'', JList snapshot),
                (''status'', JStr ''confirmed''), (''created_at'', JStr utcnow)],
          st\<lparr>cart_container :=
               Some (cc\<lparr>docs := filter (\<lambda>d. \<not> by_user ''cafe_guest'' d) (docs cc)\<rparr>),
             orders_container :=
               Some (oc\<lparr>docs := docs oc @
                 [[(''id'', JStr uuid4), (''user_id'', JStr ''cafe_guest''), (''items'', JList snapshot),
                   (''status'', JStr ''confirmed''), (''created_at'', JStr utcnow)]]\<rparr>)\<rparr>)"
    using create_order_ok[of st oc cc uuid4 snapshot callerA utcnow]
    by (simp add: lines_of_def order_doc_def DEFAULT_USER_def)
  have "DEFAULT_USER = ''cafe_guest''" by (simp add: DEFAULT_USER_def)
  with same gc go ac rc co show ?thesis by blast
qed

theorem cart_and_order_operations_ignore_caller_witness:
  "get_current_user ''k'' (Some (BearerToken barista_token)) 1000 = Inr (JStr ''barista'') \<and>
   get_current_user ''k'' (Some (BearerToken alice_token)) 2000 = Inr (JStr ''alice'') \<and>
   cart_container store_full = Some cart_full \<and> products_container store_full = Some products_cafe \<and>
   orders_container store_full = Some orders_full \<and>
   fault cart_full = None \<and> fault orders_full = None \<and> wf_container cart_full \<and>
   fresh_id ''n1'' cart_full \<and> fresh_id ''n1'' orders_full \<and>
   depends_current_user ''k'' (Some (BearerToken barista_token)) 1000 (\<lambda>u. get_cart u store_full) =
     depends_current_user ''k'' (Some (BearerToken alice_token)) 2000 (\<lambda>u. get_cart u store_full) \<and>
   add_to_cart \<lparr>product_id = ''1'', quantity = 4\<rparr> (JStr ''barista'') ''n1'' store_full =
     add_to_cart \<lparr>product_id = ''1'', quantity = 4\<rparr> (JStr ''alice'') ''n1'' store_full \<and>
   remove_from_cart ''1'' (JStr ''barista'') store_full = remove_from_cart ''1'' (JStr ''alice'') store_full \<and>
   create_order (JStr ''barista'') ''n1'' ''2024-05-01T10:00:00'' store_full =
     create_order (JStr ''alice'') ''n1'' ''2024-05-01T10:00:00'' store_full \<and>
   get_orders (JStr ''barista'') store_full = get_orders (JStr ''alice'') store_full \<and>
   get_cart (JStr ''barista'') store_full = JList enriched_cafe \<and>
   get_orders (JStr ''barista'') store_full = JList [JObj owner_order] \<and>
   (\<exists>cc'. add_to_cart \<lparr>product_id = ''1'', quantity = 4\<rparr> (JStr ''barista'') ''n1'' store_full =
            (saved, store_full\<lparr>cart_container := Some cc'\<rparr>) \<and>
          lines_for cc' ''cafe_guest'' ''1'' = [new_line ''a1'' ''1'' 4] \<and>
          filter (\<lambda>d. \<not> by_user ''cafe_guest'' d) (docs cc') = [guest_row]) \<and>
   remove_from_cart ''1'' (JStr ''barista'') store_full =
     (removed, store_full\<lparr>cart_container :=
        Some (cart_full\<lparr>docs := [guest_row, new_line ''a3'' ''2'' 3]\<rparr>)\<rparr>) \<and>
   create_order (JStr ''barista'') ''n1'' ''2024-05-01T10:00:00'' store_full =
     (JObj [(''id'', JStr ''n1''), (''user_id'', JStr ''cafe_guest''),
            (''items'', JList [JObj [(''product_id'', JStr ''1''), (''quantity'', JInt 2)],
                               JObj [(''product_id'', JStr ''2''), (''quantity'', JInt 3)]]),
            (''status'', JStr ''confirmed''), (''created_at'', JStr ''2024-05-01T10:00:00'')],
      store_full\<lparr>cart_container := Some (cart_full\<lparr>docs := [guest_row]\<rparr>),
        orders_container := Some (orders_full\<lparr>docs :=
          [guest_order, owner_order,
           [(''id'', JStr ''n1''), (''user_id'', JStr ''cafe_guest''),
            (''items'', JList [JObj [(''product_id'', JStr ''1''), (''quantity'', JInt 2)],
                               JObj [(''product_id'', JStr ''2''), (''quantity'', JInt 3)]]),
            (''status'', JStr ''confirmed''), (''created_at'', JStr ''2024-05-01T10:00:00'')]]\<rparr>)\<rparr>)"
proof -
  have h: "cart_container store_full = Some cart_full" "products_container store_full = Some products_cafe"
    "orders_container store_full = Some orders_full" "fault cart_full = None" "fault orders_full = None"
    by (simp_all add: store_full_def cart_full_def orders_full_def)
  have oo: "by_user ''cafe_guest'' owner_order" "\<not> by_user ''cafe_guest'' guest_order"
    "docs orders_full = [guest_order, owner_order]"
    by (simp_all add: orders_full_def by_user_def owner_order_def guest_order_def)
  have l1: "lines_for cart_full ''cafe_guest'' ''1'' = [new_line ''a1'' ''1'' 2]"
    by (simp add: lines_for_def cart_full_def by_user_product_def new_line_def guest_row_def
        DEFAULT_USER_def)
  have s1: "setitem (new_line ''a1'' ''1'' 2) ''quantity'' (JInt 4) = new_line ''a1'' ''1'' 4"
    by (simp add: new_line_def)
  have r1: "filter (\<lambda>d. \<not> by_user_product ''cafe_guest'' ''1'' d) (docs cart_full) =
      [guest_row, new_line ''a3'' ''2'' 3]"
    by (simp add: cart_full_def by_user_product_def new_line_def guest_row_def DEFAULT_USER_def)
  have oi: "order_items (filter (by_user ''cafe_guest'') (docs cart_full)) =
      Inr [JObj [(''product_id'', JStr ''1''), (''quantity'', JInt 2)],
           JObj [(''product_id'', JStr ''2''), (''quantity'', JInt 3)]]"
    by (simp add: owner_rows_cart_full new_line_def getitem_def)
  note T = cart_and_order_operations_ignore_caller[OF barista_token_accepted alice_token_accepted,
        where st=store_full and cc=cart_full and pc=products_cafe and oc=orders_full
          and item="\<lparr>product_id = ''1'', quantity = 4\<rparr>" and ?uuid4.0="''n1''"
          and pid="''1''" and utcnow="''2024-05-01T10:00:00''"
          and snapshot="[JObj [(''product_id'', JStr ''1''), (''quantity'', JInt 2)],
                         JObj [(''product_id'', JStr ''2''), (''quantity'', JInt 3)]]"]
  have same: "depends_current_user ''k'' (Some (BearerToken barista_token)) 1000 (\<lambda>u. get_cart u store_full) =
     depends_current_user ''k'' (Some (BearerToken alice_token)) 2000 (\<lambda>u. get_cart u store_full)"
    "add_to_cart \<lparr>product_id = ''1'', quantity = 4\<rparr> (JStr ''barista'') ''n1'' store_full =
     add_to_cart \<lparr>product_id = ''1'', quantity = 4\<rparr> (JStr ''alice'') ''n1'' store_full"
    "remove_from_cart ''1'' (JStr ''barista'') store_full = remove_from_cart ''1'' (JStr ''alice'') store_full"
    "create_order (JStr ''barista'') ''n1'' ''2024-05-01T10:00:00'' store_full =
     create_order (JStr ''alice'') ''n1'' ''2024-05-01T10:00:00'' store_full"
    "get_orders (JStr ''barista'') store_full = get_orders (JStr ''alice'') store_full"
    using T by blast+
  have "get_cart (JStr ''barista'') store_full =
      (case enrich_loop products_cafe (filter (by_user ''cafe_guest'') (docs cart_full)) [] of
         Inl e \<Rightarrow> error_body e
       | Inr enriched_cart \<Rightarrow> JList enriched_cart)"
    using T h by blast
  then have gc: "get_cart (JStr ''barista'') store_full = JList enriched_cafe"
    by (simp only: owner_rows_cart_full enrich_cart_full sum.case)
  have "get_orders (JStr ''barista'') store_full =
      JList (map JObj (filter (by_user ''cafe_guest'') (docs orders_full)))"
    using T h by blast
  then have go: "get_orders (JStr ''barista'') store_full = JList [JObj owner_order]"
    by (simp add: oo)
  from T h wf_cart_full fresh_cart_full
  obtain cc' where cc': "add_to_cart \<lparr>product_id = ''1'', quantity = 4\<rparr> (JStr ''barista'') ''n1'' store_full =
            (saved, store_full\<lparr>cart_container := Some cc'\<rparr>)"
      "lines_for cc' ''cafe_guest'' (product_id \<lparr>product_id = ''1'', quantity = 4\<rparr>) =
            (case lines_for cart_full ''cafe_guest'' (product_id \<lparr>product_id = ''1'', quantity = 4\<rparr>) of
               [] \<Rightarrow> [[(''id'', JStr ''n1''), (''user_id'', JStr ''cafe_guest''),
                       (''product_id'', JStr (product_id \<lparr>product_id = ''1'', quantity = 4\<rparr>)),
                       (''quantity'', JInt (quantity \<lparr>product_id = ''1'', quantity = 4\<rparr>))]]
             | x # xs \<Rightarrow> setitem x ''quantity'' (JInt (quantity \<lparr>product_id = ''1'', quantity = 4\<rparr>)) # xs)"
      "filter (\<lambda>d. \<not> by_user ''cafe_guest'' d) (docs cc') =
            filter (\<lambda>d. \<not> by_user ''cafe_guest'' d) (docs cart_full)"
    by blast
  have ac: "\<exists>cc'. add_to_cart \<lparr>product_id = ''1'', quantity = 4\<rparr> (JStr ''barista'') ''n1'' store_full =
            (saved, store_full\<lparr>cart_container := Some cc'\<rparr>) \<and>
          lines_for cc' ''cafe_guest'' ''1'' = [new_line ''a1'' ''1'' 4] \<and>
          filter (\<lambda>d. \<not> by_user ''cafe_guest'' d) (docs cc') = [guest_row]"
    using cc' by (intro exI[of _ cc']) (simp add: l1 s1 other_rows_cart_full)
  have "remove_from_cart ''1'' (JStr ''barista'') store_full =
         (removed, store_full\<lparr>cart_container :=
            Some (cart_full\<lparr>docs := filter (\<lambda>d. \<not> by_user_product ''cafe_guest'' ''1'' d) (docs cart_full)\<rparr>)\<rparr>)"
    using T h wf_cart_full by blast
  then have rc: "remove_from_cart ''1'' (JStr ''barista'') store_full =
     (removed, store_full\<lparr>cart_container :=
        Some (cart_full\<lparr>docs := [guest_row, new_line ''a3'' ''2'' 3]\<rparr>)\<rparr>)"
    by (simp add: r1)
  let ?o = "[(''id'', JStr ''n1''), (''user_id'', JStr ''cafe_guest''),
            (''items'', JList [JObj [(''product_id'', JStr ''1''), (''quantity'', JInt 2)],
                               JObj [(''product_id'', JStr ''2''), (''quantity'', JInt 3)]]),
            (''status'', JStr ''confirmed''), (''created_at'', JStr ''2024-05-01T10:00:00'')]"
  have "create_order (JStr ''barista'') ''n1'' ''2024-05-01T10:00:00'' store_full =
     (JObj ?o,
      store_full\<lparr>cart_container :=
           Some (cart_full\<lparr>docs := filter (\<lambda>d. \<not> by_user ''cafe_guest'' d) (docs cart_full)\<rparr>),
        orders_container := Some (orders_full\<lparr>docs := docs orders_full @ [?o]\<rparr>)\<rparr>)"
    using T h wf_cart_full fresh_orders_full oi by blast
  then have co: "create_order (JStr ''barista'') ''n1'' ''2024-05-01T10:00:00'' store_full =
     (JObj ?o,
      store_full\<lparr>cart_container := Some (cart_full\<lparr>docs := [guest_row]\<rparr>),
        orders_container := Some (orders_full\<lparr>docs := [guest_order, owner_order, ?o]\<rparr>)\<rparr>)"
    by (simp add: other_rows_cart_full oo)
  show ?thesis
    using barista_token_accepted alice_token_accepted h wf_cart_full fresh_cart_full
      fresh_orders_full same gc go ac rc co
    by blast
qed

end
